theory Spec2Isabelle
  imports Complex_Main "HOL-Library.Word" "HOL-Library.Monad_Syntax"
begin

section \<open>Numbers, checked operations and collaborators\<close>

text \<open>
  The source computes in \<open>real\<close>, a double. The model computes in the real numbers:
  rounding, overflow and underflow are not represented (except in the binary64 model
  of the two kernels further down), and \<open>P_L\<close> is a total function on the reals. What is represented is the one way the formulas of \<open>SPT.cpp\<close> can leave the
  real numbers: a division whose divisor is zero, or a logarithm of a number that is not
  positive. IEEE arithmetic does not trap there; it goes on with an infinity or a NaN.
  A computed value is therefore a \<open>real option\<close>: \<open>Some x\<close> is the number \<open>x\<close>, and \<open>None\<close>
  says that the evaluation met a zero divisor or a non-positive logarithm argument on
  the way; what the double holds from there on (an infinity, a NaN, or a number computed
  from one) is not followed by the model.
  Divisions by literals (\<open>5/7.\<close>, \<open>k/2\<close>, \<open>2*M_PI*M_PI\<close>) are written with the plain \<open>/\<close>;
  \<open>fmax\<close>, \<open>fabs\<close>, \<open>exp\<close> and \<open>M_PI\<close> are \<open>max\<close>, the absolute value, \<open>exp\<close> and \<open>pi\<close>.
\<close>

type_synonym fp = "real option"

definition fdiv :: "real \<Rightarrow> real \<Rightarrow> fp" where
  "fdiv x y = (if y = 0 then None else Some (x / y))"

definition flog :: "real \<Rightarrow> fp" where
  "flog x = (if x \<le> 0 then None else Some (ln x))"

text \<open>
  Modelled from the spec: the helpers \<open>pow2\<close>, \<open>pow3\<close>, \<open>pow4\<close> and \<open>pow6\<close> are declared in a
  header that is not part of \<open>SPT.cpp\<close>; the spec writes them as the powers r^2, r^3,
  r^4 and r^6.
\<close>

definition pow2 :: "real \<Rightarrow> real" where
  "pow2 x = x ^ 2"

definition pow3 :: "real \<Rightarrow> real" where
  "pow3 x = x ^ 3"

definition pow4 :: "real \<Rightarrow> real" where
  "pow4 x = x ^ 4"

definition pow6 :: "real \<Rightarrow> real" where
  "pow6 x = x ^ 6"

text \<open>Limits of integration for the second-order power spectrum.\<close>

definition QMIN :: real where
  "QMIN = 1 / 100000"

definition QMAX :: real where
  "QMAX = 100000"

text \<open>
  The field indices are C++ \<open>int\<close>s, taken as 32-bit two's complement words (\<open>sint\<close>
  reads the signed value, so \<open>-1\<close> is the word of all ones): the product \<open>a*b\<close> of the
  dispatch is the product of words. (An overflowing signed product is undefined in C++;
  the word product is what the machine multiplication leaves.)
\<close>

type_synonym int32 = "32 word"

text \<open>
  What a call does besides returning a number is recorded in a trace: the call of
  \<open>warning\<close> with its two \<open>%d\<close> arguments, and each call of the quadrature engine with the
  dimension of the integral. \<open>P_L\<close> is a pure callable and leaves no event.
\<close>

datatype event = Warning int32 int32 | Quadrature nat

type_synonym traced = "fp \<times> event list"

text \<open>
  The quadrature engine (\<open>Quadrature.h\<close>) is a collaborator outside \<open>SPT.cpp\<close> and is a
  parameter of the model: \<open>Integrate\<close> is the one-dimensional engine
  \<open>Integrate(f, a, b, epsrel, epsabs)\<close> and \<open>Integrate2\<close> is \<open>Integrate<2>\<close>, whose bounds
  are arrays of two numbers, here pairs. The absolute tolerance is the result of a
  division and is handed over as such; the engine's estimate is a computed value.
\<close>

record engine =
  Integrate :: "(real \<Rightarrow> fp) \<Rightarrow> real \<Rightarrow> real \<Rightarrow> real \<Rightarrow> fp \<Rightarrow> fp"
  Integrate2 :: "(real \<Rightarrow> real \<Rightarrow> fp) \<Rightarrow> real \<times> real \<Rightarrow> real \<times> real \<Rightarrow> real \<Rightarrow> fp \<Rightarrow> fp"

text \<open>
  The evaluator \<open>SPT\<close>: the cosmology (held, never read by the formulas), the linear power
  spectrum and the relative tolerance, as the constructor stores them.
\<close>

record 'c SPT =
  C :: 'c
  P_L :: "real \<Rightarrow> real"
  epsrel :: real

section \<open>The kernels F2 and G2\<close>

definition F2 :: "real \<Rightarrow> real \<Rightarrow> real \<Rightarrow> fp" where
  "F2 k q r =
     (let q = max q QMIN; r = max r QMIN;
          k2 = k * k; q2 = q * q; r2 = r * r
      in do {
        t \<leftarrow> fdiv ((1 / 14) * pow2 (k2 - q2 - r2)) (q2 * r2);
        iq \<leftarrow> fdiv 1 q2;
        ir \<leftarrow> fdiv 1 r2;
        Some (5 / 7 + t + (1 / 4) * (k2 - q2 - r2) * (iq + ir))
      })"

definition G2 :: "real \<Rightarrow> real \<Rightarrow> real \<Rightarrow> fp" where
  "G2 k q r =
     (let q = max q QMIN; r = max r QMIN;
          k2 = k * k; q2 = q * q; r2 = r * r
      in do {
        t \<leftarrow> fdiv ((1 / 7) * pow2 (k2 - q2 - r2)) (q2 * r2);
        iq \<leftarrow> fdiv 1 q2;
        ir \<leftarrow> fdiv 1 r2;
        Some (3 / 7 + t + (1 / 4) * (k2 - q2 - r2) * (iq + ir))
      })"

section \<open>The kernels in binary64 arithmetic\<close>

text \<open>
  Whether F2(k,q,r) and F2(k,r,q) are the same double is decided by rounding, which the
  real-number kernels above do not show. For that question the two kernels are modelled
  a second time, with every operation rounded as IEEE 754 binary64 does in its default
  mode: to the nearest representable number, ties to the one with an even significand;
  53 significant bits for a number of magnitude at least 2^-1022, and the fixed quantum
  2^-1074 below (gradual underflow). A rounded magnitude of 2^1024 or more is an
  overflow to infinity and is \<open>None\<close>, like a zero divisor: the model does not follow
  the double from there. Each operation is rounded on its own (no fused multiply-add and
  no wider intermediate format).
\<close>

text \<open>The binade of a non-zero number: the e with 2^e <= |x| < 2^(e+1).\<close>

definition binade :: "real \<Rightarrow> int" where
  "binade x = \<lfloor>log 2 \<bar>x\<bar>\<rfloor>"

text \<open>The integer nearest to y, the even one of the two when y lies halfway.\<close>

definition round_half_even :: "real \<Rightarrow> int" where
  "round_half_even y =
     (let n = \<lfloor>y\<rfloor>; d = y - of_int n
      in if d < 1 / 2 then n
         else if 1 / 2 < d then n + 1
         else if even n then n else n + 1)"

text \<open>The spacing of the doubles around x, and the double nearest to x.\<close>

definition quantum :: "real \<Rightarrow> real" where
  "quantum x = 2 powi (max (binade x) (- 1022) - 52)"

definition round64 :: "real \<Rightarrow> real" where
  "round64 x = (if x = 0 then 0 else of_int (round_half_even (x / quantum x)) * quantum x)"

definition binary64 :: "real \<Rightarrow> fp" where
  "binary64 x = (let y = round64 x in if 2 powi 1024 \<le> \<bar>y\<bar> then None else Some y)"

definition fadd64 :: "real \<Rightarrow> real \<Rightarrow> fp" where
  "fadd64 x y = binary64 (x + y)"

definition fsub64 :: "real \<Rightarrow> real \<Rightarrow> fp" where
  "fsub64 x y = binary64 (x - y)"

definition fmul64 :: "real \<Rightarrow> real \<Rightarrow> fp" where
  "fmul64 x y = binary64 (x * y)"

definition fdiv64 :: "real \<Rightarrow> real \<Rightarrow> fp" where
  "fdiv64 x y = fdiv x y \<bind> binary64"

text \<open>
  Modelled from the spec: \<open>pow2\<close> is declared in a header that is not part of \<open>SPT.cpp\<close>;
  the spec writes it as a square, here one rounded multiplication.
\<close>

definition pow2_binary64 :: "real \<Rightarrow> fp" where
  "pow2_binary64 x = fmul64 x x"

text \<open>
  The kernels of \<open>SPT.cpp\<close>, lines 70 to 81, operation by operation as the C++
  expression groups them: \<open>QMIN\<close> is the double nearest to 1e-5, the literals \<open>5/7.\<close>,
  \<open>1/14.\<close> and \<open>1/4.\<close> are rounded quotients, and the subexpression \<open>k2 - q2 - r2\<close>, which
  the source writes twice, is bound once. The arguments stand for doubles; the
  statements below hold for all real arguments.
\<close>

definition F2_binary64 :: "real \<Rightarrow> real \<Rightarrow> real \<Rightarrow> fp" where
  "F2_binary64 k q r =
     (let q = max q (round64 QMIN); r = max r (round64 QMIN)
      in do {
        k2 \<leftarrow> fmul64 k k;
        q2 \<leftarrow> fmul64 q q;
        r2 \<leftarrow> fmul64 r r;
        kq \<leftarrow> fsub64 k2 q2;
        d \<leftarrow> fsub64 kq r2;
        c0 \<leftarrow> fdiv64 5 7;
        c1 \<leftarrow> fdiv64 1 14;
        p \<leftarrow> pow2_binary64 d;
        n \<leftarrow> fmul64 c1 p;
        qr \<leftarrow> fmul64 q2 r2;
        t \<leftarrow> fdiv64 n qr;
        s \<leftarrow> fadd64 c0 t;
        c2 \<leftarrow> fdiv64 1 4;
        h \<leftarrow> fmul64 c2 d;
        iq \<leftarrow> fdiv64 1 q2;
        ir \<leftarrow> fdiv64 1 r2;
        i \<leftarrow> fadd64 iq ir;
        w \<leftarrow> fmul64 h i;
        fadd64 s w
      })"

definition G2_binary64 :: "real \<Rightarrow> real \<Rightarrow> real \<Rightarrow> fp" where
  "G2_binary64 k q r =
     (let q = max q (round64 QMIN); r = max r (round64 QMIN)
      in do {
        k2 \<leftarrow> fmul64 k k;
        q2 \<leftarrow> fmul64 q q;
        r2 \<leftarrow> fmul64 r r;
        kq \<leftarrow> fsub64 k2 q2;
        d \<leftarrow> fsub64 kq r2;
        c0 \<leftarrow> fdiv64 3 7;
        c1 \<leftarrow> fdiv64 1 7;
        p \<leftarrow> pow2_binary64 d;
        n \<leftarrow> fmul64 c1 p;
        qr \<leftarrow> fmul64 q2 r2;
        t \<leftarrow> fdiv64 n qr;
        s \<leftarrow> fadd64 c0 t;
        c2 \<leftarrow> fdiv64 1 4;
        h \<leftarrow> fmul64 c2 d;
        iq \<leftarrow> fdiv64 1 q2;
        ir \<leftarrow> fdiv64 1 r2;
        i \<leftarrow> fadd64 iq ir;
        w \<leftarrow> fmul64 h i;
        fadd64 s w
      })"

text \<open>
  The subexpression \<open>k2 - q2 - r2\<close> of both kernels, on its own.
\<close>

definition difference64 :: "real \<Rightarrow> real \<Rightarrow> real \<Rightarrow> fp" where
  "difference64 k q r =
     (let q = max q (round64 QMIN); r = max r (round64 QMIN)
      in do {
        k2 \<leftarrow> fmul64 k k;
        q2 \<leftarrow> fmul64 q q;
        r2 \<leftarrow> fmul64 r r;
        kq \<leftarrow> fsub64 k2 q2;
        fsub64 kq r2
      })"

section \<open>The P22 integrands and their driver\<close>

definition P22_dd_integrand :: "(real \<Rightarrow> real) \<Rightarrow> real \<Rightarrow> real \<Rightarrow> real \<Rightarrow> fp" where
  "P22_dd_integrand PL k logu v =
     (let u = exp logu; q = (k / 2) * (u - v); r = (k / 2) * (u + v)
      in do {
        f \<leftarrow> F2 k q r;
        Some (u * q * r * PL q * PL r * pow2 f)
      })"

definition P22_dt_integrand :: "(real \<Rightarrow> real) \<Rightarrow> real \<Rightarrow> real \<Rightarrow> real \<Rightarrow> fp" where
  "P22_dt_integrand PL k logu v =
     (let u = exp logu; q = (k / 2) * (u - v); r = (k / 2) * (u + v)
      in do {
        f \<leftarrow> F2 k q r;
        g \<leftarrow> G2 k q r;
        Some (u * q * r * PL q * PL r * f * g)
      })"

definition P22_tt_integrand :: "(real \<Rightarrow> real) \<Rightarrow> real \<Rightarrow> real \<Rightarrow> real \<Rightarrow> fp" where
  "P22_tt_integrand PL k logu v =
     (let u = exp logu; q = (k / 2) * (u - v); r = (k / 2) * (u + v)
      in do {
        g \<leftarrow> G2 k q r;
        Some (u * q * r * PL q * PL r * pow2 g)
      })"

text \<open>
  The driver is \<open>static\<close> and is called by \<open>P22_dd\<close>, \<open>P22_dt\<close> and \<open>P22_tt\<close> only, with
  \<open>qmax\<close> left at its default \<open>QMAX\<close>. Past the guard \<open>k\<close> is positive, so that the divisor
  of \<open>umax\<close> is not zero and, for a positive \<open>qmax\<close>, the logarithm of \<open>umax\<close> is that of
  a positive number: both are written with the plain operations. The prefactor \<open>V\<close> is
  \<open>k\<close> over a constant; the absolute tolerance divides by \<open>V\<close>.
\<close>

definition ComputeP22Integral ::
  "engine \<Rightarrow> ((real \<Rightarrow> real) \<Rightarrow> real \<Rightarrow> real \<Rightarrow> real \<Rightarrow> fp) \<Rightarrow> (real \<Rightarrow> real) \<Rightarrow> real \<Rightarrow> real \<Rightarrow> real \<Rightarrow> traced" where
  "ComputeP22Integral E f PL k eps qmax =
     (if k \<le> 0 then (Some 0, [])
      else
        let umin = 1; umax = 2 * qmax / k;
            vmin = 0; vmax = 1;
            a = (ln umin, vmin);
            b = (ln umax, vmax);
            V = k / (2 * pi * pi)
        in (map_option (\<lambda>I. V * I)
              (Integrate2 E (\<lambda>logu v. f PL k logu v) a b eps (fdiv (eps * PL k) V)),
            [Quadrature 2]))"

definition P22_dd :: "engine \<Rightarrow> 'c SPT \<Rightarrow> real \<Rightarrow> traced" where
  "P22_dd E S k = ComputeP22Integral E P22_dd_integrand (P_L S) k (epsrel S) QMAX"

definition P22_dt :: "engine \<Rightarrow> 'c SPT \<Rightarrow> real \<Rightarrow> traced" where
  "P22_dt E S k = ComputeP22Integral E P22_dt_integrand (P_L S) k (epsrel S) QMAX"

definition P22_tt :: "engine \<Rightarrow> 'c SPT \<Rightarrow> real \<Rightarrow> traced" where
  "P22_tt E S k = ComputeP22Integral E P22_tt_integrand (P_L S) k (epsrel S) QMAX"

section \<open>The P13 kernels and their drivers\<close>

definition f13_dd :: "(real \<Rightarrow> real) \<Rightarrow> real \<Rightarrow> real \<Rightarrow> fp" where
  "f13_dd PL k logq =
     (let q = exp logq
      in do {
        r \<leftarrow> fdiv q k;
        s \<leftarrow>
          (if r < 1 / 100 then
             Some (- 168 + (928 / 5) * pow2 r - (4512 / 35) * pow4 r + (416 / 21) * pow6 r)
           else if \<bar>r - 1\<bar> < 1 / 10 ^ 10 then
             Some (- 88 + 8 * (r - 1))
           else if r > 100 then do {
             t2 \<leftarrow> fdiv (96 / 5) (pow2 r);
             t4 \<leftarrow> fdiv (160 / 21) (pow4 r);
             t6 \<leftarrow> fdiv (1376 / 1155) (pow6 r);
             Some (- 488 / 5 + t2 - t4 - t6)
           }
           else do {
             t2 \<leftarrow> fdiv 12 (pow2 r);
             t3 \<leftarrow> fdiv 3 (pow3 r);
             x \<leftarrow> fdiv (1 + r) \<bar>1 - r\<bar>;
             l \<leftarrow> flog x;
             Some (t2 - 158 + 100 * pow2 r - 42 * pow4 r
                   + t3 * pow3 (r * r - 1) * (7 * r * r + 2) * l)
           });
        Some (q * PL q * s)
      })"

definition P13_dd :: "engine \<Rightarrow> 'c SPT \<Rightarrow> real \<Rightarrow> traced" where
  "P13_dd E S k =
     (let a = ln QMIN;
          b = ln QMAX;
          V = k * k / (252 * 4 * pi * pi) * P_L S k
      in (map_option (\<lambda>I. V * I)
            (Integrate E (f13_dd (P_L S) k) a b (epsrel S) (fdiv (epsrel S * P_L S k) V)),
          [Quadrature 1]))"

definition f13_dt :: "(real \<Rightarrow> real) \<Rightarrow> real \<Rightarrow> real \<Rightarrow> fp" where
  "f13_dt PL k logq =
     (let q = exp logq
      in do {
        r \<leftarrow> fdiv q k;
        s \<leftarrow>
          (if r < 1 / 100 then
             Some (- 168 + (416 / 5) * pow2 r - (2976 / 35) * pow4 r + (224 / 15) * pow6 r)
           else if \<bar>r - 1\<bar> < 1 / 10 ^ 10 then
             Some (- 152 - 56 * (r - 1))
           else if r > 100 then do {
             t2 \<leftarrow> fdiv (2208 / 35) (pow2 r);
             t4 \<leftarrow> fdiv (1312 / 105) (pow4 r);
             t6 \<leftarrow> fdiv (1888 / 1155) (pow6 r);
             Some (- 200 + t2 - t4 - t6)
           }
           else do {
             t2 \<leftarrow> fdiv 24 (pow2 r);
             t3 \<leftarrow> fdiv 3 (pow3 r);
             x \<leftarrow> fdiv (1 + r) \<bar>1 - r\<bar>;
             l \<leftarrow> flog x;
             Some (t2 - 202 + 56 * pow2 r - 30 * pow4 r
                   + t3 * pow3 (r * r - 1) * (5 * r * r + 4) * l)
           });
        Some (q * PL q * s)
      })"

definition P13_dt :: "engine \<Rightarrow> 'c SPT \<Rightarrow> real \<Rightarrow> traced" where
  "P13_dt E S k =
     (let a = ln QMIN;
          b = ln QMAX;
          V = k * k / (252 * 4 * pi * pi) * P_L S k
      in (map_option (\<lambda>I. V * I)
            (Integrate E (f13_dt (P_L S) k) a b (epsrel S) (fdiv (epsrel S * P_L S k) V)),
          [Quadrature 1]))"

definition f13_tt :: "(real \<Rightarrow> real) \<Rightarrow> real \<Rightarrow> real \<Rightarrow> fp" where
  "f13_tt PL k logq =
     (let q = exp logq
      in do {
        r \<leftarrow> fdiv q k;
        s \<leftarrow>
          (if r < 1 / 100 then
             Some (- 56 - (32 / 5) * pow2 r - (96 / 7) * pow4 r + (352 / 105) * pow6 r)
           else if \<bar>r - 1\<bar> < 1 / 10 ^ 10 then
             Some (- 72 - 40 * (r - 1))
           else if r > 100 then do {
             t2 \<leftarrow> fdiv (1248 / 35) (pow2 r);
             t4 \<leftarrow> fdiv (608 / 105) (pow4 r);
             t6 \<leftarrow> fdiv (160 / 231) (pow6 r);
             Some (- 504 / 5 + t2 - t4 - t6)
           }
           else do {
             t2 \<leftarrow> fdiv 12 (pow2 r);
             t3 \<leftarrow> fdiv 3 (pow3 r);
             x \<leftarrow> fdiv (1 + r) \<bar>1 - r\<bar>;
             l \<leftarrow> flog x;
             Some (t2 - 82 + 4 * pow2 r - 6 * pow4 r
                   + t3 * pow3 (r * r - 1) * (r * r + 2) * l)
           });
        Some (q * PL q * s)
      })"

definition P13_tt :: "engine \<Rightarrow> 'c SPT \<Rightarrow> real \<Rightarrow> traced" where
  "P13_tt E S k =
     (let a = ln QMIN;
          b = ln QMAX;
          V = k * k / (84 * 4 * pi * pi) * P_L S k
      in (map_option (\<lambda>I. V * I)
            (Integrate E (f13_tt (P_L S) k) a b (epsrel S) (fdiv (epsrel S * P_L S k) V)),
          [Quadrature 1]))"

section \<open>The public operations\<close>

text \<open>
  \<open>P_L(k) + P13(k) + P22(k)\<close> on computed values: the sum is a number when both loop
  terms are, and the trace is that of the P13 call followed by that of the P22 call
  (C++ leaves the order of the two calls open; the trace lists them as written).
\<close>

definition tree_plus_terms :: "real \<Rightarrow> traced \<Rightarrow> traced \<Rightarrow> traced" where
  "tree_plus_terms t l13 l22 =
     (do { x \<leftarrow> fst l13; y \<leftarrow> fst l22; Some (t + x + y) }, snd l13 @ snd l22)"

definition P :: "engine \<Rightarrow> 'c SPT \<Rightarrow> real \<Rightarrow> int32 \<Rightarrow> int32 \<Rightarrow> traced" where
  "P E S k a b =
     (let key = a * b
      in if key = 1 then tree_plus_terms (P_L S k) (P13_dd E S k) (P22_dd E S k)
         else if key = 2 then tree_plus_terms (P_L S k) (P13_dt E S k) (P22_dt E S k)
         else if key = 4 then tree_plus_terms (P_L S k) (P13_tt E S k) (P22_tt E S k)
         else (Some 0, [Warning a b]))"

definition P22 :: "engine \<Rightarrow> 'c SPT \<Rightarrow> real \<Rightarrow> int32 \<Rightarrow> int32 \<Rightarrow> traced" where
  "P22 E S k a b =
     (let key = a * b
      in if key = 1 then P22_dd E S k
         else if key = 2 then P22_dt E S k
         else if key = 4 then P22_tt E S k
         else (Some 0, [Warning a b]))"

definition P13 :: "engine \<Rightarrow> 'c SPT \<Rightarrow> real \<Rightarrow> int32 \<Rightarrow> int32 \<Rightarrow> traced" where
  "P13 E S k a b =
     (let key = a * b
      in if key = 1 then P13_dd E S k
         else if key = 2 then P13_dt E S k
         else if key = 4 then P13_tt E S k
         else (Some 0, [Warning a b]))"

definition G :: "engine \<Rightarrow> 'c SPT \<Rightarrow> real \<Rightarrow> traced" where
  "G E S k =
     (let l13 = P13_dd E S k
      in (do { x \<leftarrow> fst l13; d \<leftarrow> fdiv ((1 / 2) * x) (P_L S k); Some (1 + d) }, snd l13))"

section \<open>The P13 bracket as the specification words it\<close>

text \<open>
  The specification describes the bracket \<open>s(r)\<close> of a P13 kernel by four shapes and the
  thresholds that select among them. These definitions follow its words; the kernels
  above follow the source, and the two are compared below.
\<close>

text \<open>A 4-term polynomial in r^2.\<close>

definition small_r_series :: "real \<Rightarrow> real \<Rightarrow> real \<Rightarrow> real \<Rightarrow> real \<Rightarrow> real" where
  "small_r_series c0 c1 c2 c3 r = c0 + c1 * r\<^sup>2 + c2 * (r\<^sup>2)\<^sup>2 + c3 * (r\<^sup>2) ^ 3"

text \<open>A constant plus a linear term in (r - 1).\<close>

definition near_one_expansion :: "real \<Rightarrow> real \<Rightarrow> real \<Rightarrow> real" where
  "near_one_expansion d0 d1 r = d0 + d1 * (r - 1)"

text \<open>An expansion in inverse powers of r, down to r^-6.\<close>

definition large_r_series :: "real \<Rightarrow> real \<Rightarrow> real \<Rightarrow> real \<Rightarrow> real \<Rightarrow> real" where
  "large_r_series e0 e2 e4 e6 r = e0 + e2 / r\<^sup>2 + e4 / r ^ 4 + e6 / r ^ 6"

text \<open>The exact closed form A/r^2 - B + C r^2 - D r^4 + (3/r^3) (r^2-1)^3 (E r^2 + F) ln((1+r)/|1-r|).\<close>

definition exact_closed_form ::
  "real \<Rightarrow> real \<Rightarrow> real \<Rightarrow> real \<Rightarrow> real \<Rightarrow> real \<Rightarrow> real \<Rightarrow> real" where
  "exact_closed_form cA cB cC cD cE cF r =
     cA / r\<^sup>2 - cB + cC * r\<^sup>2 - cD * r ^ 4
     + (3 / r ^ 3) * (r\<^sup>2 - 1) ^ 3 * (cE * r\<^sup>2 + cF) * ln ((1 + r) / \<bar>1 - r\<bar>)"

definition s_piecewise ::
  "(real \<Rightarrow> real) \<Rightarrow> (real \<Rightarrow> real) \<Rightarrow> (real \<Rightarrow> real) \<Rightarrow> (real \<Rightarrow> real) \<Rightarrow> real \<Rightarrow> real" where
  "s_piecewise small near large exact r =
     (if r < 1 / 100 then small r
      else if \<bar>r - 1\<bar> < 1 / 10 ^ 10 then near r
      else if 100 < r then large r
      else exact r)"

definition s_dd :: "real \<Rightarrow> real" where
  "s_dd = s_piecewise
     (small_r_series (- 168) (928 / 5) (- (4512 / 35)) (416 / 21))
     (near_one_expansion (- 88) 8)
     (large_r_series (- (488 / 5)) (96 / 5) (- (160 / 21)) (- (1376 / 1155)))
     (exact_closed_form 12 158 100 42 7 2)"

definition s_dt :: "real \<Rightarrow> real" where
  "s_dt = s_piecewise
     (small_r_series (- 168) (416 / 5) (- (2976 / 35)) (224 / 15))
     (near_one_expansion (- 152) (- 56))
     (large_r_series (- 200) (2208 / 35) (- (1312 / 105)) (- (1888 / 1155)))
     (exact_closed_form 24 202 56 30 5 4)"

definition s_tt :: "real \<Rightarrow> real" where
  "s_tt = s_piecewise
     (small_r_series (- 56) (- (32 / 5)) (- (96 / 7)) (352 / 105))
     (near_one_expansion (- 72) (- 40))
     (large_r_series (- (504 / 5)) (1248 / 35) (- (608 / 105)) (- (160 / 231)))
     (exact_closed_form 12 82 4 6 1 2)"

section \<open>A concrete evaluator\<close>

text \<open>
  The statements below hold for every engine and every evaluator. To run them, here is
  one of each: the engine that estimates an integral by the value of the integrand at
  the lower corner times the volume of the domain, and an evaluator over a linear
  spectrum that is 1 below the wavenumber 2 and 0 from there on.
\<close>

definition rectangle_engine :: engine where
  "rectangle_engine =
     \<lparr>Integrate = (\<lambda>f a b er ea. map_option (\<lambda>y. (b - a) * y) (f a)),
      Integrate2 = (\<lambda>f a b er ea.
         map_option (\<lambda>y. (fst b - fst a) * (snd b - snd a) * y) (f (fst a) (snd a)))\<rparr>"

definition cutoff_spectrum :: "real \<Rightarrow> real" where
  "cutoff_spectrum k = (if k < 2 then 1 else 0)"

definition sample_SPT :: "unit SPT" where
  "sample_SPT = \<lparr>C = (), P_L = cutoff_spectrum, epsrel = 1 / 1000\<rparr>"

section \<open>Properties of the kernels\<close>

lemma QMIN_pos: "0 < QMIN"
  by (simp add: QMIN_def)

lemma clamp_pos: "0 < max x QMIN"
  using QMIN_pos by (simp add: less_max_iff_disj)

lemma clamp_nonzero: "max x QMIN \<noteq> 0"
  using clamp_pos [of x] by simp

lemma fdiv_nonzero: "y \<noteq> 0 \<Longrightarrow> fdiv x y = Some (x / y)"
  by (simp add: fdiv_def)

lemma fdiv_zero: "fdiv x 0 = None"
  by (simp add: fdiv_def)

text \<open>
  C3: for every k, q and r, F2 is 5/7 + (1/14) (k^2 - q'^2 - r'^2)^2 / (q'^2 r'^2)
  + (1/4) (k^2 - q'^2 - r'^2) (1/q'^2 + 1/r'^2) with q' = max(q, QMIN) and
  r' = max(r, QMIN), and G2 is the same with the constants 3/7 and 1/7. Both are numbers
  for all real inputs: because of the clamp none of the three divisions has a zero
  divisor.
\<close>

theorem kernels_closed_form_total:
  "F2 k q r = Some (5 / 7
      + (1 / 14) * (k\<^sup>2 - (max q QMIN)\<^sup>2 - (max r QMIN)\<^sup>2)\<^sup>2
          / ((max q QMIN)\<^sup>2 * (max r QMIN)\<^sup>2)
      + (1 / 4) * (k\<^sup>2 - (max q QMIN)\<^sup>2 - (max r QMIN)\<^sup>2)
          * (1 / (max q QMIN)\<^sup>2 + 1 / (max r QMIN)\<^sup>2))
   \<and> G2 k q r = Some (3 / 7
      + (1 / 7) * (k\<^sup>2 - (max q QMIN)\<^sup>2 - (max r QMIN)\<^sup>2)\<^sup>2
          / ((max q QMIN)\<^sup>2 * (max r QMIN)\<^sup>2)
      + (1 / 4) * (k\<^sup>2 - (max q QMIN)\<^sup>2 - (max r QMIN)\<^sup>2)
          * (1 / (max q QMIN)\<^sup>2 + 1 / (max r QMIN)\<^sup>2))"
proof
  show "F2 k q r = Some (5 / 7
      + (1 / 14) * (k\<^sup>2 - (max q QMIN)\<^sup>2 - (max r QMIN)\<^sup>2)\<^sup>2
          / ((max q QMIN)\<^sup>2 * (max r QMIN)\<^sup>2)
      + (1 / 4) * (k\<^sup>2 - (max q QMIN)\<^sup>2 - (max r QMIN)\<^sup>2)
          * (1 / (max q QMIN)\<^sup>2 + 1 / (max r QMIN)\<^sup>2))"
    by (simp add: F2_def Let_def fdiv_def clamp_nonzero pow2_def power2_eq_square)
  show "G2 k q r = Some (3 / 7
      + (1 / 7) * (k\<^sup>2 - (max q QMIN)\<^sup>2 - (max r QMIN)\<^sup>2)\<^sup>2
          / ((max q QMIN)\<^sup>2 * (max r QMIN)\<^sup>2)
      + (1 / 4) * (k\<^sup>2 - (max q QMIN)\<^sup>2 - (max r QMIN)\<^sup>2)
          * (1 / (max q QMIN)\<^sup>2 + 1 / (max r QMIN)\<^sup>2))"
    by (simp add: G2_def Let_def fdiv_def clamp_nonzero pow2_def power2_eq_square)
qed

text \<open>
  Over the real numbers the two closed forms do not change when q and r are swapped.
\<close>

lemma kernels_symmetric_over_reals:
  "F2 k q r = F2 k r q \<and> G2 k q r = G2 k r q"
proof
  show "F2 k q r = F2 k r q"
    by (simp add: F2_def Let_def fdiv_def clamp_nonzero pow2_def power2_eq_square
          algebra_simps)
  show "G2 k q r = G2 k r q"
    by (simp add: G2_def Let_def fdiv_def clamp_nonzero pow2_def power2_eq_square
          algebra_simps)
qed

text \<open>The kernels at the corner the rectangle engine samples for k = 1.\<close>

lemma kernels_at_half: "F2 1 (1 / 2) (1 / 2) = Some 2 \<and> G2 1 (1 / 2) (1 / 2) = Some 2"
  by (simp add: F2_def G2_def Let_def fdiv_def QMIN_def pow2_def power2_eq_square)

section \<open>Swapping q and r in binary64 arithmetic\<close>

text \<open>
  Reading off a rounding: a number in the binade e, of normal size, rounds to m quanta
  when m is within half a quantum of it, and is even in the case of a tie.
\<close>

lemma binade_eqI:
  assumes "2 powi e \<le> \<bar>x\<bar>" "\<bar>x\<bar> < 2 powi (e + 1)"
  shows "binade x = e"
proof -
  have pos: "0 < \<bar>x\<bar>"
    using assms(1) by (smt (verit) zero_less_power_int zero_less_numeral)
  have p: "(2 :: real) powr of_int n = 2 powi n" for n
    by (simp add: powr_real_of_int')
  have "of_int e \<le> log 2 \<bar>x\<bar>"
    using assms(1) pos by (simp add: le_log_iff p)
  moreover have "log 2 \<bar>x\<bar> < of_int (e + 1)"
    using assms(2) pos by (simp only: log_less_iff p)
  ultimately show ?thesis
    unfolding binade_def by (simp add: floor_eq_iff)
qed

lemma round_half_even_eqI:
  assumes "\<bar>y - of_int m\<bar> < 1 / 2 \<or> (\<bar>y - of_int m\<bar> = 1 / 2 \<and> even m)"
  shows "round_half_even y = m"
proof -
  consider (above) "of_int m \<le> y" "y < of_int m + 1 / 2"
    | (below) "y < of_int m" "of_int m - 1 / 2 < y"
    | (tie_up) "y = of_int m + 1 / 2" "even m"
    | (tie_down) "y = of_int m - 1 / 2" "even m"
    using assms by (auto simp: abs_if split: if_splits)
  then show ?thesis
  proof cases
    case above
    then have "\<lfloor>y\<rfloor> = m" by (simp add: floor_eq_iff)
    with above show ?thesis by (simp add: round_half_even_def Let_def)
  next
    case below
    then have "\<lfloor>y\<rfloor> = m - 1" by (simp add: floor_eq_iff)
    with below show ?thesis by (simp add: round_half_even_def Let_def)
  next
    case tie_up
    then have "\<lfloor>y\<rfloor> = m" by (simp add: floor_eq_iff)
    with tie_up show ?thesis by (simp add: round_half_even_def Let_def)
  next
    case tie_down
    then have "\<lfloor>y\<rfloor> = m - 1" by (simp add: floor_eq_iff)
    with tie_down show ?thesis by (simp add: round_half_even_def Let_def)
  qed
qed

lemma round64_eqI:
  assumes "2 powi e \<le> \<bar>x\<bar>" "\<bar>x\<bar> < 2 powi (e + 1)" "- 1022 \<le> e"
    and "\<bar>x / 2 powi (e - 52) - of_int m\<bar> < 1 / 2
         \<or> (\<bar>x / 2 powi (e - 52) - of_int m\<bar> = 1 / 2 \<and> even m)"
  shows "round64 x = of_int m * 2 powi (e - 52)"
proof -
  have nz: "x \<noteq> 0"
  proof
    assume "x = 0"
    with assms(1) have "(2 :: real) powi e \<le> 0" by simp
    moreover have "(0 :: real) < 2 powi e" by simp
    ultimately show False by linarith
  qed
  have "binade x = e" using assms(1,2) by (rule binade_eqI)
  with assms(3) have q: "quantum x = 2 powi (e - 52)"
    by (simp add: quantum_def)
  have "round_half_even (x / 2 powi (e - 52)) = m"
    using assms(4) by (rule round_half_even_eqI)
  with nz q show ?thesis by (simp add: round64_def)
qed

lemma binary64_eqI:
  assumes "2 powi e \<le> \<bar>x\<bar>" "\<bar>x\<bar> < 2 powi (e + 1)" "- 1022 \<le> e" "e \<le> 1022"
    and "\<bar>x / 2 powi (e - 52) - of_int m\<bar> < 1 / 2
         \<or> (\<bar>x / 2 powi (e - 52) - of_int m\<bar> = 1 / 2 \<and> even m)"
  shows "binary64 x = Some (of_int m * 2 powi (e - 52))"
proof -
  let ?u = "(2 :: real) powi (e - 52)"
  have u: "0 < ?u" by simp
  have r: "round64 x = of_int m * ?u"
    using assms(1,2,3,5) by (rule round64_eqI)
  have split: "(2 :: real) powi (e + 1) = 2 ^ 53 * ?u"
  proof -
    have "e + 1 = 53 + (e - 52)" by simp
    then have "(2 :: real) powi (e + 1) = 2 powi (53 + (e - 52))" by (simp only:)
    also have "\<dots> = 2 powi 53 * ?u" by (rule power_int_add) simp
    finally show ?thesis by simp
  qed
  have "\<bar>x / ?u\<bar> < 2 ^ 53"
    using assms(2) u by (simp add: split pos_divide_less_eq)
  moreover have "\<bar>x / ?u - of_int m\<bar> \<le> 1 / 2" using assms(5) by auto
  ultimately have "\<bar>real_of_int m\<bar> < 2 ^ 53 + 1" by linarith
  then have "real_of_int \<bar>m\<bar> < real_of_int (2 ^ 53 + 1)" by simp
  then have "\<bar>m\<bar> < 2 ^ 53 + 1" by (simp only: of_int_less_iff)
  then have "\<bar>m\<bar> \<le> 2 ^ 53" by simp
  then have "real_of_int \<bar>m\<bar> \<le> real_of_int (2 ^ 53)" by (simp only: of_int_le_iff)
  then have "\<bar>real_of_int m\<bar> \<le> 2 ^ 53" by simp
  then have "\<bar>of_int m * ?u\<bar> \<le> 2 ^ 53 * ?u"
    using u by (simp add: abs_mult)
  also have "\<dots> = 2 powi (e + 1)" by (simp only: split)
  also have "\<dots> \<le> 2 powi 1023"
    using assms(4) by (intro power_int_increasing) simp_all
  also have "\<dots> < (2 :: real) powi 1024"
    by (intro power_int_strict_increasing) simp_all
  finally have "\<not> 2 powi 1024 \<le> \<bar>round64 x\<bar>" using r by simp
  with r show ?thesis by (simp add: binary64_def Let_def)
qed

text \<open>
  The two orders of a kernel differ only in the order in which q2 and r2 are subtracted
  from k2: the rounded product q2 r2 and the rounded sum 1/q2 + 1/r2 do not depend on
  it.
\<close>

lemma fmul64_commute: "fmul64 x y = fmul64 y x"
  by (simp add: fmul64_def mult.commute)

lemma fadd64_commute: "fadd64 x y = fadd64 y x"
  by (simp add: fadd64_def add.commute)

lemma reciprocal_sum_commute:
  "(fdiv64 1 x \<bind> (\<lambda>ix. fdiv64 1 y \<bind> (\<lambda>iy. fadd64 ix iy \<bind> g)))
   = (fdiv64 1 y \<bind> (\<lambda>iy. fdiv64 1 x \<bind> (\<lambda>ix. fadd64 iy ix \<bind> g)))"
  by (cases "fdiv64 1 x"; cases "fdiv64 1 y") (simp_all add: fadd64_commute)

lemma F2_binary64_by_difference:
  "F2_binary64 k q r =
     (let q' = max q (round64 QMIN); r' = max r (round64 QMIN)
      in do {
        d \<leftarrow> difference64 k q r;
        q2 \<leftarrow> fmul64 q' q';
        r2 \<leftarrow> fmul64 r' r';
        c0 \<leftarrow> fdiv64 5 7;
        c1 \<leftarrow> fdiv64 1 14;
        p \<leftarrow> pow2_binary64 d;
        n \<leftarrow> fmul64 c1 p;
        qr \<leftarrow> fmul64 q2 r2;
        t \<leftarrow> fdiv64 n qr;
        s \<leftarrow> fadd64 c0 t;
        c2 \<leftarrow> fdiv64 1 4;
        h \<leftarrow> fmul64 c2 d;
        iq \<leftarrow> fdiv64 1 q2;
        ir \<leftarrow> fdiv64 1 r2;
        i \<leftarrow> fadd64 iq ir;
        w \<leftarrow> fmul64 h i;
        fadd64 s w
      })"
  unfolding F2_binary64_def difference64_def Let_def
  by (cases "fmul64 k k"; cases "fmul64 (max q (round64 QMIN)) (max q (round64 QMIN))";
      cases "fmul64 (max r (round64 QMIN)) (max r (round64 QMIN))") simp_all

lemma F2_binary64_symmetric_if:
  assumes "difference64 k q r = difference64 k r q"
  shows "F2_binary64 k q r = F2_binary64 k r q"
proof -
  let ?q = "max q (round64 QMIN)" and ?r = "max r (round64 QMIN)"
  show ?thesis
    unfolding F2_binary64_by_difference Let_def assms
    by (cases "difference64 k r q"; cases "fmul64 ?q ?q"; cases "fmul64 ?r ?r")
       (simp_all add: fmul64_commute [of _ "_ :: real"] reciprocal_sum_commute)
qed

lemma G2_binary64_by_difference:
  "G2_binary64 k q r =
     (let q' = max q (round64 QMIN); r' = max r (round64 QMIN)
      in do {
        d \<leftarrow> difference64 k q r;
        q2 \<leftarrow> fmul64 q' q';
        r2 \<leftarrow> fmul64 r' r';
        c0 \<leftarrow> fdiv64 3 7;
        c1 \<leftarrow> fdiv64 1 7;
        p \<leftarrow> pow2_binary64 d;
        n \<leftarrow> fmul64 c1 p;
        qr \<leftarrow> fmul64 q2 r2;
        t \<leftarrow> fdiv64 n qr;
        s \<leftarrow> fadd64 c0 t;
        c2 \<leftarrow> fdiv64 1 4;
        h \<leftarrow> fmul64 c2 d;
        iq \<leftarrow> fdiv64 1 q2;
        ir \<leftarrow> fdiv64 1 r2;
        i \<leftarrow> fadd64 iq ir;
        w \<leftarrow> fmul64 h i;
        fadd64 s w
      })"
  unfolding G2_binary64_def difference64_def Let_def
  by (cases "fmul64 k k"; cases "fmul64 (max q (round64 QMIN)) (max q (round64 QMIN))";
      cases "fmul64 (max r (round64 QMIN)) (max r (round64 QMIN))") simp_all

lemma G2_binary64_symmetric_if:
  assumes "difference64 k q r = difference64 k r q"
  shows "G2_binary64 k q r = G2_binary64 k r q"
proof -
  let ?q = "max q (round64 QMIN)" and ?r = "max r (round64 QMIN)"
  show ?thesis
    unfolding G2_binary64_by_difference Let_def assms
    by (cases "difference64 k r q"; cases "fmul64 ?q ?q"; cases "fmul64 ?r ?r")
       (simp_all add: fmul64_commute [of _ "_ :: real"] reciprocal_sum_commute)
qed

text \<open>
  The double \<open>QMIN\<close>, the doubles that the decimal literals 0.1, 0.2, 0.3 and 1.9 denote,
  and the kernels evaluated step by step at these inputs.
\<close>

lemma QMIN_binary64: "round64 QMIN = (5902958103587057 / 2 ^ 69)"
  unfolding QMIN_def
  using round64_eqI [of "- 17" "1 / 100000" "5902958103587057"] by simp

lemma decimal_literals:
  "round64 (1 / 10) = (3602879701896397 / 2 ^ 55)"
  "round64 (2 / 10) = (3602879701896397 / 2 ^ 54)"
  "round64 (3 / 10) = (5404319552844595 / 2 ^ 54)"
  "round64 (19 / 10) = (4278419646001971 / 2 ^ 51)"
  using round64_eqI [of "- 4" "1 / 10" "7205759403792794"]
    round64_eqI [of "- 3" "2 / 10" "7205759403792794"]
    round64_eqI [of "- 2" "3 / 10" "5404319552844595"]
    round64_eqI [of "0" "19 / 10" "8556839292003942"]
  by simp_all

lemma F2_binary64_at:
  "F2_binary64 (3602879701896397 / 2 ^ 55) (3602879701896397 / 2 ^ 54) (3 / 2) = Some (- (2719986524947305 / 2 ^ 48))"
proof -
  have cq: "max (3602879701896397 / 2 ^ 54) (round64 QMIN) = (3602879701896397 / 2 ^ 54)"
    by (simp add: QMIN_binary64)
  have cr: "max (3 / 2) (round64 QMIN) = (3 / 2)"
    by (simp add: QMIN_binary64)
  have s1: "fmul64 (3602879701896397 / 2 ^ 55) (3602879701896397 / 2 ^ 55) = Some (1441151880758559 / 2 ^ 57)"
    unfolding fmul64_def
    using binary64_eqI [of "- 7" "(3602879701896397 / 2 ^ 55) * (3602879701896397 / 2 ^ 55)" "5764607523034236"] by simp
  have s2: "fmul64 (3602879701896397 / 2 ^ 54) (3602879701896397 / 2 ^ 54) = Some (1441151880758559 / 2 ^ 55)"
    unfolding fmul64_def
    using binary64_eqI [of "- 5" "(3602879701896397 / 2 ^ 54) * (3602879701896397 / 2 ^ 54)" "5764607523034236"] by simp
  have s3: "fmul64 (3 / 2) (3 / 2) = Some (9 / 2 ^ 2)"
    unfolding fmul64_def
    using binary64_eqI [of "1" "(3 / 2) * (3 / 2)" "5066549580791808"] by simp
  have s4: "fsub64 (1441151880758559 / 2 ^ 57) (1441151880758559 / 2 ^ 55) = Some (- (4323455642275677 / 2 ^ 57))"
    unfolding fsub64_def
    using binary64_eqI [of "- 6" "(1441151880758559 / 2 ^ 57) - (1441151880758559 / 2 ^ 55)" "- 8646911284551354"] by simp
  have s5: "fsub64 (- (4323455642275677 / 2 ^ 57)) (9 / 2 ^ 2) = Some (- (5134103575202365 / 2 ^ 51))"
    unfolding fsub64_def
    using binary64_eqI [of "1" "(- (4323455642275677 / 2 ^ 57)) - (9 / 2 ^ 2)" "- 5134103575202365"] by simp
  have s6: "fdiv64 5 7 = Some (6433713753386423 / 2 ^ 53)"
    unfolding fdiv64_def fdiv_def
    using binary64_eqI [of "- 1" "5 / 7" "6433713753386423"] by simp
  have s7: "fdiv64 1 14 = Some (2573485501354569 / 2 ^ 55)"
    unfolding fdiv64_def fdiv_def
    using binary64_eqI [of "- 4" "1 / 14" "5146971002709138"] by simp
  have s8: "fmul64 (- (5134103575202365 / 2 ^ 51)) (- (5134103575202365 / 2 ^ 51)) = Some (731609759466337 / 2 ^ 47)"
    unfolding fmul64_def
    using binary64_eqI [of "2" "(- (5134103575202365 / 2 ^ 51)) * (- (5134103575202365 / 2 ^ 51))" "5852878075730696"] by simp
  have s9: "fmul64 (2573485501354569 / 2 ^ 55) (731609759466337 / 2 ^ 47) = Some (6689003515120795 / 2 ^ 54)"
    unfolding fmul64_def
    using binary64_eqI [of "- 2" "(2573485501354569 / 2 ^ 55) * (731609759466337 / 2 ^ 47)" "6689003515120795"] by simp
  have s10: "fmul64 (1441151880758559 / 2 ^ 55) (9 / 2 ^ 2) = Some (1621295865853379 / 2 ^ 54)"
    unfolding fmul64_def
    using binary64_eqI [of "- 4" "(1441151880758559 / 2 ^ 55) * (9 / 2 ^ 2)" "6485183463413516"] by simp
  have s11: "fdiv64 (6689003515120795 / 2 ^ 54) (1621295865853379 / 2 ^ 54) = Some (4645141329944995 / 2 ^ 50)"
    unfolding fdiv64_def fdiv_def
    using binary64_eqI [of "2" "(6689003515120795 / 2 ^ 54) / (1621295865853379 / 2 ^ 54)" "4645141329944995"] by simp
  have s12: "fadd64 (6433713753386423 / 2 ^ 53) (4645141329944995 / 2 ^ 50) = Some (2724677774559149 / 2 ^ 49)"
    unfolding fadd64_def
    using binary64_eqI [of "2" "(6433713753386423 / 2 ^ 53) + (4645141329944995 / 2 ^ 50)" "5449355549118298"] by simp
  have s13: "fdiv64 1 4 = Some (1 / 2 ^ 2)"
    unfolding fdiv64_def fdiv_def
    using binary64_eqI [of "- 2" "1 / 4" "4503599627370496"] by simp
  have s14: "fmul64 (1 / 2 ^ 2) (- (5134103575202365 / 2 ^ 51)) = Some (- (5134103575202365 / 2 ^ 53))"
    unfolding fmul64_def
    using binary64_eqI [of "- 1" "(1 / 2 ^ 2) * (- (5134103575202365 / 2 ^ 51))" "- 5134103575202365"] by simp
  have s15: "fdiv64 1 (1441151880758559 / 2 ^ 55) = Some (7036874417766399 / 2 ^ 48)"
    unfolding fdiv64_def fdiv_def
    using binary64_eqI [of "4" "1 / (1441151880758559 / 2 ^ 55)" "7036874417766399"] by simp
  have s16: "fdiv64 1 (9 / 2 ^ 2) = Some (2001599834386887 / 2 ^ 52)"
    unfolding fdiv64_def fdiv_def
    using binary64_eqI [of "- 2" "1 / (9 / 2 ^ 2)" "8006399337547548"] by simp
  have s17: "fadd64 (7036874417766399 / 2 ^ 48) (2001599834386887 / 2 ^ 52) = Some (7161974407415579 / 2 ^ 48)"
    unfolding fadd64_def
    using binary64_eqI [of "4" "(7036874417766399 / 2 ^ 48) + (2001599834386887 / 2 ^ 52)" "7161974407415579"] by simp
  have s18: "fmul64 (- (5134103575202365 / 2 ^ 53)) (7161974407415579 / 2 ^ 48) = Some (- (8164650824453759 / 2 ^ 49))"
    unfolding fmul64_def
    using binary64_eqI [of "3" "(- (5134103575202365 / 2 ^ 53)) * (7161974407415579 / 2 ^ 48)" "- 8164650824453759"] by simp
  have s19: "fadd64 (2724677774559149 / 2 ^ 49) (- (8164650824453759 / 2 ^ 49)) = Some (- (2719986524947305 / 2 ^ 48))"
    unfolding fadd64_def
    using binary64_eqI [of "3" "(2724677774559149 / 2 ^ 49) + (- (8164650824453759 / 2 ^ 49))" "- 5439973049894610"] by simp
  show ?thesis
    by (simp only: F2_binary64_def pow2_binary64_def Let_def cq cr s1 s2 s3 s4 s5 s6 s7 s8 s9 s10 s11 s12 s13 s14 s15 s16 s17 s18 s19 Option.bind.bind_lunit)
qed

lemma F2_binary64_at_swapped:
  "F2_binary64 (3602879701896397 / 2 ^ 55) (3 / 2) (3602879701896397 / 2 ^ 54) = Some (- (5439973049894611 / 2 ^ 49))"
proof -
  have cq: "max (3 / 2) (round64 QMIN) = (3 / 2)"
    by (simp add: QMIN_binary64)
  have cr: "max (3602879701896397 / 2 ^ 54) (round64 QMIN) = (3602879701896397 / 2 ^ 54)"
    by (simp add: QMIN_binary64)
  have s1: "fmul64 (3602879701896397 / 2 ^ 55) (3602879701896397 / 2 ^ 55) = Some (1441151880758559 / 2 ^ 57)"
    unfolding fmul64_def
    using binary64_eqI [of "- 7" "(3602879701896397 / 2 ^ 55) * (3602879701896397 / 2 ^ 55)" "5764607523034236"] by simp
  have s2: "fmul64 (3 / 2) (3 / 2) = Some (9 / 2 ^ 2)"
    unfolding fmul64_def
    using binary64_eqI [of "1" "(3 / 2) * (3 / 2)" "5066549580791808"] by simp
  have s3: "fmul64 (3602879701896397 / 2 ^ 54) (3602879701896397 / 2 ^ 54) = Some (1441151880758559 / 2 ^ 55)"
    unfolding fmul64_def
    using binary64_eqI [of "- 5" "(3602879701896397 / 2 ^ 54) * (3602879701896397 / 2 ^ 54)" "5764607523034236"] by simp
  have s4: "fsub64 (1441151880758559 / 2 ^ 57) (9 / 2 ^ 2) = Some (- (1261007895663739 / 2 ^ 49))"
    unfolding fsub64_def
    using binary64_eqI [of "1" "(1441151880758559 / 2 ^ 57) - (9 / 2 ^ 2)" "- 5044031582654956"] by simp
  have s5: "fsub64 (- (1261007895663739 / 2 ^ 49)) (1441151880758559 / 2 ^ 55) = Some (- (2567051787601183 / 2 ^ 50))"
    unfolding fsub64_def
    using binary64_eqI [of "1" "(- (1261007895663739 / 2 ^ 49)) - (1441151880758559 / 2 ^ 55)" "- 5134103575202366"] by simp
  have s6: "fdiv64 5 7 = Some (6433713753386423 / 2 ^ 53)"
    unfolding fdiv64_def fdiv_def
    using binary64_eqI [of "- 1" "5 / 7" "6433713753386423"] by simp
  have s7: "fdiv64 1 14 = Some (2573485501354569 / 2 ^ 55)"
    unfolding fdiv64_def fdiv_def
    using binary64_eqI [of "- 4" "1 / 14" "5146971002709138"] by simp
  have s8: "fmul64 (- (2567051787601183 / 2 ^ 50)) (- (2567051787601183 / 2 ^ 50)) = Some (2926439037865349 / 2 ^ 49)"
    unfolding fmul64_def
    using binary64_eqI [of "2" "(- (2567051787601183 / 2 ^ 50)) * (- (2567051787601183 / 2 ^ 50))" "5852878075730698"] by simp
  have s9: "fmul64 (2573485501354569 / 2 ^ 55) (2926439037865349 / 2 ^ 49) = Some (6689003515120797 / 2 ^ 54)"
    unfolding fmul64_def
    using binary64_eqI [of "- 2" "(2573485501354569 / 2 ^ 55) * (2926439037865349 / 2 ^ 49)" "6689003515120797"] by simp
  have s10: "fmul64 (9 / 2 ^ 2) (1441151880758559 / 2 ^ 55) = Some (1621295865853379 / 2 ^ 54)"
    unfolding fmul64_def
    using binary64_eqI [of "- 4" "(9 / 2 ^ 2) * (1441151880758559 / 2 ^ 55)" "6485183463413516"] by simp
  have s11: "fdiv64 (6689003515120797 / 2 ^ 54) (1621295865853379 / 2 ^ 54) = Some (4645141329944997 / 2 ^ 50)"
    unfolding fdiv64_def fdiv_def
    using binary64_eqI [of "2" "(6689003515120797 / 2 ^ 54) / (1621295865853379 / 2 ^ 54)" "4645141329944997"] by simp
  have s12: "fadd64 (6433713753386423 / 2 ^ 53) (4645141329944997 / 2 ^ 50) = Some (1362338887279575 / 2 ^ 48)"
    unfolding fadd64_def
    using binary64_eqI [of "2" "(6433713753386423 / 2 ^ 53) + (4645141329944997 / 2 ^ 50)" "5449355549118300"] by simp
  have s13: "fdiv64 1 4 = Some (1 / 2 ^ 2)"
    unfolding fdiv64_def fdiv_def
    using binary64_eqI [of "- 2" "1 / 4" "4503599627370496"] by simp
  have s14: "fmul64 (1 / 2 ^ 2) (- (2567051787601183 / 2 ^ 50)) = Some (- (2567051787601183 / 2 ^ 52))"
    unfolding fmul64_def
    using binary64_eqI [of "- 1" "(1 / 2 ^ 2) * (- (2567051787601183 / 2 ^ 50))" "- 5134103575202366"] by simp
  have s15: "fdiv64 1 (9 / 2 ^ 2) = Some (2001599834386887 / 2 ^ 52)"
    unfolding fdiv64_def fdiv_def
    using binary64_eqI [of "- 2" "1 / (9 / 2 ^ 2)" "8006399337547548"] by simp
  have s16: "fdiv64 1 (1441151880758559 / 2 ^ 55) = Some (7036874417766399 / 2 ^ 48)"
    unfolding fdiv64_def fdiv_def
    using binary64_eqI [of "4" "1 / (1441151880758559 / 2 ^ 55)" "7036874417766399"] by simp
  have s17: "fadd64 (2001599834386887 / 2 ^ 52) (7036874417766399 / 2 ^ 48) = Some (7161974407415579 / 2 ^ 48)"
    unfolding fadd64_def
    using binary64_eqI [of "4" "(2001599834386887 / 2 ^ 52) + (7036874417766399 / 2 ^ 48)" "7161974407415579"] by simp
  have s18: "fmul64 (- (2567051787601183 / 2 ^ 52)) (7161974407415579 / 2 ^ 48) = Some (- (8164650824453761 / 2 ^ 49))"
    unfolding fmul64_def
    using binary64_eqI [of "3" "(- (2567051787601183 / 2 ^ 52)) * (7161974407415579 / 2 ^ 48)" "- 8164650824453761"] by simp
  have s19: "fadd64 (1362338887279575 / 2 ^ 48) (- (8164650824453761 / 2 ^ 49)) = Some (- (5439973049894611 / 2 ^ 49))"
    unfolding fadd64_def
    using binary64_eqI [of "3" "(1362338887279575 / 2 ^ 48) + (- (8164650824453761 / 2 ^ 49))" "- 5439973049894611"] by simp
  show ?thesis
    by (simp only: F2_binary64_def pow2_binary64_def Let_def cq cr s1 s2 s3 s4 s5 s6 s7 s8 s9 s10 s11 s12 s13 s14 s15 s16 s17 s18 s19 Option.bind.bind_lunit)
qed

lemma G2_binary64_at:
  "G2_binary64 2 (5404319552844595 / 2 ^ 54) (4278419646001971 / 2 ^ 51) = Some (1488724530561993 / 2 ^ 50)"
proof -
  have cq: "max (5404319552844595 / 2 ^ 54) (round64 QMIN) = (5404319552844595 / 2 ^ 54)"
    by (simp add: QMIN_binary64)
  have cr: "max (4278419646001971 / 2 ^ 51) (round64 QMIN) = (4278419646001971 / 2 ^ 51)"
    by (simp add: QMIN_binary64)
  have s1: "fmul64 2 2 = Some 4"
    unfolding fmul64_def
    using binary64_eqI [of "2" "2 * 2" "4503599627370496"] by simp
  have s2: "fmul64 (5404319552844595 / 2 ^ 54) (5404319552844595 / 2 ^ 54) = Some (3242591731706757 / 2 ^ 55)"
    unfolding fmul64_def
    using binary64_eqI [of "- 4" "(5404319552844595 / 2 ^ 54) * (5404319552844595 / 2 ^ 54)" "6485183463413514"] by simp
  have s3: "fmul64 (4278419646001971 / 2 ^ 51) (4278419646001971 / 2 ^ 51) = Some (8128997327403745 / 2 ^ 51)"
    unfolding fmul64_def
    using binary64_eqI [of "1" "(4278419646001971 / 2 ^ 51) * (4278419646001971 / 2 ^ 51)" "8128997327403745"] by simp
  have s4: "fsub64 4 (3242591731706757 / 2 ^ 55) = Some (1100567158938665 / 2 ^ 48)"
    unfolding fsub64_def
    using binary64_eqI [of "1" "4 - (3242591731706757 / 2 ^ 55)" "8804537271509320"] by simp
  have s5: "fsub64 (1100567158938665 / 2 ^ 48) (8128997327403745 / 2 ^ 51) = Some (675539944105575 / 2 ^ 51)"
    unfolding fsub64_def
    using binary64_eqI [of "- 2" "(1100567158938665 / 2 ^ 48) - (8128997327403745 / 2 ^ 51)" "5404319552844600"] by simp
  have s6: "fdiv64 3 7 = Some (7720456504063707 / 2 ^ 54)"
    unfolding fdiv64_def fdiv_def
    using binary64_eqI [of "- 2" "3 / 7" "7720456504063707"] by simp
  have s7: "fdiv64 1 7 = Some (2573485501354569 / 2 ^ 54)"
    unfolding fdiv64_def fdiv_def
    using binary64_eqI [of "- 3" "1 / 7" "5146971002709138"] by simp
  have s8: "fmul64 (675539944105575 / 2 ^ 51) (675539944105575 / 2 ^ 51) = Some (3242591731706763 / 2 ^ 55)"
    unfolding fmul64_def
    using binary64_eqI [of "- 4" "(675539944105575 / 2 ^ 51) * (675539944105575 / 2 ^ 51)" "6485183463413526"] by simp
  have s9: "fmul64 (2573485501354569 / 2 ^ 54) (3242591731706763 / 2 ^ 55) = Some (1852909560975293 / 2 ^ 57)"
    unfolding fmul64_def
    using binary64_eqI [of "- 7" "(2573485501354569 / 2 ^ 54) * (3242591731706763 / 2 ^ 55)" "7411638243901172"] by simp
  have s10: "fmul64 (3242591731706757 / 2 ^ 55) (8128997327403745 / 2 ^ 51) = Some (731609759466337 / 2 ^ 51)"
    unfolding fmul64_def
    using binary64_eqI [of "- 2" "(3242591731706757 / 2 ^ 55) * (8128997327403745 / 2 ^ 51)" "5852878075730696"] by simp
  have s11: "fdiv64 (1852909560975293 / 2 ^ 57) (731609759466337 / 2 ^ 51) = Some (5703014961450579 / 2 ^ 57)"
    unfolding fdiv64_def fdiv_def
    using binary64_eqI [of "- 5" "(1852909560975293 / 2 ^ 57) / (731609759466337 / 2 ^ 51)" "5703014961450579"] by simp
  have s12: "fadd64 (7720456504063707 / 2 ^ 54) (5703014961450579 / 2 ^ 57) = Some (8433333374245029 / 2 ^ 54)"
    unfolding fadd64_def
    using binary64_eqI [of "- 2" "(7720456504063707 / 2 ^ 54) + (5703014961450579 / 2 ^ 57)" "8433333374245029"] by simp
  have s13: "fdiv64 1 4 = Some (1 / 2 ^ 2)"
    unfolding fdiv64_def fdiv_def
    using binary64_eqI [of "- 2" "1 / 4" "4503599627370496"] by simp
  have s14: "fmul64 (1 / 2 ^ 2) (675539944105575 / 2 ^ 51) = Some (675539944105575 / 2 ^ 53)"
    unfolding fmul64_def
    using binary64_eqI [of "- 4" "(1 / 2 ^ 2) * (675539944105575 / 2 ^ 51)" "5404319552844600"] by simp
  have s15: "fdiv64 1 (3242591731706757 / 2 ^ 55) = Some (3127499741229511 / 2 ^ 48)"
    unfolding fdiv64_def fdiv_def
    using binary64_eqI [of "3" "1 / (3242591731706757 / 2 ^ 55)" "6254999482459022"] by simp
  have s16: "fdiv64 1 (8128997327403745 / 2 ^ 51) = Some (38985453838041 / 2 ^ 47)"
    unfolding fdiv64_def fdiv_def
    using binary64_eqI [of "- 2" "1 / (8128997327403745 / 2 ^ 51)" "4990138091269248"] by simp
  have s17: "fadd64 (3127499741229511 / 2 ^ 48) (38985453838041 / 2 ^ 47) = Some (3205470648905593 / 2 ^ 48)"
    unfolding fadd64_def
    using binary64_eqI [of "3" "(3127499741229511 / 2 ^ 48) + (38985453838041 / 2 ^ 47)" "6410941297811186"] by simp
  have s18: "fmul64 (675539944105575 / 2 ^ 53) (3205470648905593 / 2 ^ 48) = Some (3846564778686715 / 2 ^ 52)"
    unfolding fmul64_def
    using binary64_eqI [of "- 1" "(675539944105575 / 2 ^ 53) * (3205470648905593 / 2 ^ 48)" "7693129557373430"] by simp
  have s19: "fadd64 (8433333374245029 / 2 ^ 54) (3846564778686715 / 2 ^ 52) = Some (1488724530561993 / 2 ^ 50)"
    unfolding fadd64_def
    using binary64_eqI [of "0" "(8433333374245029 / 2 ^ 54) + (3846564778686715 / 2 ^ 52)" "5954898122247972"] by simp
  show ?thesis
    by (simp only: G2_binary64_def pow2_binary64_def Let_def cq cr s1 s2 s3 s4 s5 s6 s7 s8 s9 s10 s11 s12 s13 s14 s15 s16 s17 s18 s19 Option.bind.bind_lunit)
qed

lemma G2_binary64_at_swapped:
  "G2_binary64 2 (4278419646001971 / 2 ^ 51) (5404319552844595 / 2 ^ 54) = Some (5954898122247971 / 2 ^ 52)"
proof -
  have cq: "max (4278419646001971 / 2 ^ 51) (round64 QMIN) = (4278419646001971 / 2 ^ 51)"
    by (simp add: QMIN_binary64)
  have cr: "max (5404319552844595 / 2 ^ 54) (round64 QMIN) = (5404319552844595 / 2 ^ 54)"
    by (simp add: QMIN_binary64)
  have s1: "fmul64 2 2 = Some 4"
    unfolding fmul64_def
    using binary64_eqI [of "2" "2 * 2" "4503599627370496"] by simp
  have s2: "fmul64 (4278419646001971 / 2 ^ 51) (4278419646001971 / 2 ^ 51) = Some (8128997327403745 / 2 ^ 51)"
    unfolding fmul64_def
    using binary64_eqI [of "1" "(4278419646001971 / 2 ^ 51) * (4278419646001971 / 2 ^ 51)" "8128997327403745"] by simp
  have s3: "fmul64 (5404319552844595 / 2 ^ 54) (5404319552844595 / 2 ^ 54) = Some (3242591731706757 / 2 ^ 55)"
    unfolding fmul64_def
    using binary64_eqI [of "- 4" "(5404319552844595 / 2 ^ 54) * (5404319552844595 / 2 ^ 54)" "6485183463413514"] by simp
  have s4: "fsub64 4 (8128997327403745 / 2 ^ 51) = Some (878201927337247 / 2 ^ 51)"
    unfolding fsub64_def
    using binary64_eqI [of "- 2" "4 - (8128997327403745 / 2 ^ 51)" "7025615418697976"] by simp
  have s5: "fsub64 (878201927337247 / 2 ^ 51) (3242591731706757 / 2 ^ 55) = Some (2702159776422299 / 2 ^ 53)"
    unfolding fsub64_def
    using binary64_eqI [of "- 2" "(878201927337247 / 2 ^ 51) - (3242591731706757 / 2 ^ 55)" "5404319552844598"] by simp
  have s6: "fdiv64 3 7 = Some (7720456504063707 / 2 ^ 54)"
    unfolding fdiv64_def fdiv_def
    using binary64_eqI [of "- 2" "3 / 7" "7720456504063707"] by simp
  have s7: "fdiv64 1 7 = Some (2573485501354569 / 2 ^ 54)"
    unfolding fdiv64_def fdiv_def
    using binary64_eqI [of "- 3" "1 / 7" "5146971002709138"] by simp
  have s8: "fmul64 (2702159776422299 / 2 ^ 53) (2702159776422299 / 2 ^ 53) = Some (6485183463413521 / 2 ^ 56)"
    unfolding fmul64_def
    using binary64_eqI [of "- 4" "(2702159776422299 / 2 ^ 53) * (2702159776422299 / 2 ^ 53)" "6485183463413521"] by simp
  have s9: "fmul64 (2573485501354569 / 2 ^ 54) (6485183463413521 / 2 ^ 56) = Some (3705819121950583 / 2 ^ 58)"
    unfolding fmul64_def
    using binary64_eqI [of "- 7" "(2573485501354569 / 2 ^ 54) * (6485183463413521 / 2 ^ 56)" "7411638243901166"] by simp
  have s10: "fmul64 (8128997327403745 / 2 ^ 51) (3242591731706757 / 2 ^ 55) = Some (731609759466337 / 2 ^ 51)"
    unfolding fmul64_def
    using binary64_eqI [of "- 2" "(8128997327403745 / 2 ^ 51) * (3242591731706757 / 2 ^ 55)" "5852878075730696"] by simp
  have s11: "fdiv64 (3705819121950583 / 2 ^ 58) (731609759466337 / 2 ^ 51) = Some (5703014961450575 / 2 ^ 57)"
    unfolding fdiv64_def fdiv_def
    using binary64_eqI [of "- 5" "(3705819121950583 / 2 ^ 58) / (731609759466337 / 2 ^ 51)" "5703014961450575"] by simp
  have s12: "fadd64 (7720456504063707 / 2 ^ 54) (5703014961450575 / 2 ^ 57) = Some (8433333374245029 / 2 ^ 54)"
    unfolding fadd64_def
    using binary64_eqI [of "- 2" "(7720456504063707 / 2 ^ 54) + (5703014961450575 / 2 ^ 57)" "8433333374245029"] by simp
  have s13: "fdiv64 1 4 = Some (1 / 2 ^ 2)"
    unfolding fdiv64_def fdiv_def
    using binary64_eqI [of "- 2" "1 / 4" "4503599627370496"] by simp
  have s14: "fmul64 (1 / 2 ^ 2) (2702159776422299 / 2 ^ 53) = Some (2702159776422299 / 2 ^ 55)"
    unfolding fmul64_def
    using binary64_eqI [of "- 4" "(1 / 2 ^ 2) * (2702159776422299 / 2 ^ 53)" "5404319552844598"] by simp
  have s15: "fdiv64 1 (8128997327403745 / 2 ^ 51) = Some (38985453838041 / 2 ^ 47)"
    unfolding fdiv64_def fdiv_def
    using binary64_eqI [of "- 2" "1 / (8128997327403745 / 2 ^ 51)" "4990138091269248"] by simp
  have s16: "fdiv64 1 (3242591731706757 / 2 ^ 55) = Some (3127499741229511 / 2 ^ 48)"
    unfolding fdiv64_def fdiv_def
    using binary64_eqI [of "3" "1 / (3242591731706757 / 2 ^ 55)" "6254999482459022"] by simp
  have s17: "fadd64 (38985453838041 / 2 ^ 47) (3127499741229511 / 2 ^ 48) = Some (3205470648905593 / 2 ^ 48)"
    unfolding fadd64_def
    using binary64_eqI [of "3" "(38985453838041 / 2 ^ 47) + (3127499741229511 / 2 ^ 48)" "6410941297811186"] by simp
  have s18: "fmul64 (2702159776422299 / 2 ^ 55) (3205470648905593 / 2 ^ 48) = Some (7693129557373427 / 2 ^ 53)"
    unfolding fmul64_def
    using binary64_eqI [of "- 1" "(2702159776422299 / 2 ^ 55) * (3205470648905593 / 2 ^ 48)" "7693129557373427"] by simp
  have s19: "fadd64 (8433333374245029 / 2 ^ 54) (7693129557373427 / 2 ^ 53) = Some (5954898122247971 / 2 ^ 52)"
    unfolding fadd64_def
    using binary64_eqI [of "0" "(8433333374245029 / 2 ^ 54) + (7693129557373427 / 2 ^ 53)" "5954898122247971"] by simp
  show ?thesis
    by (simp only: G2_binary64_def pow2_binary64_def Let_def cq cr s1 s2 s3 s4 s5 s6 s7 s8 s9 s10 s11 s12 s13 s14 s15 s16 s17 s18 s19 Option.bind.bind_lunit)
qed

lemma difference64_at:
  "difference64 1 2 3 = Some (- 12)"
proof -
  have cq: "max 2 (round64 QMIN) = 2"
    by (simp add: QMIN_binary64)
  have cr: "max 3 (round64 QMIN) = 3"
    by (simp add: QMIN_binary64)
  have s1: "fmul64 1 1 = Some 1"
    unfolding fmul64_def
    using binary64_eqI [of "0" "1 * 1" "4503599627370496"] by simp
  have s2: "fmul64 2 2 = Some 4"
    unfolding fmul64_def
    using binary64_eqI [of "2" "2 * 2" "4503599627370496"] by simp
  have s3: "fmul64 3 3 = Some 9"
    unfolding fmul64_def
    using binary64_eqI [of "3" "3 * 3" "5066549580791808"] by simp
  have s4: "fsub64 1 4 = Some (- 3)"
    unfolding fsub64_def
    using binary64_eqI [of "1" "1 - 4" "- 6755399441055744"] by simp
  have s5: "fsub64 (- 3) 9 = Some (- 12)"
    unfolding fsub64_def
    using binary64_eqI [of "3" "(- 3) - 9" "- 6755399441055744"] by simp
  show ?thesis
    by (simp only: difference64_def Let_def cq cr s1 s2 s3 s4 s5 Option.bind.bind_lunit)
qed

lemma difference64_at_swapped:
  "difference64 1 3 2 = Some (- 12)"
proof -
  have cq: "max 3 (round64 QMIN) = 3"
    by (simp add: QMIN_binary64)
  have cr: "max 2 (round64 QMIN) = 2"
    by (simp add: QMIN_binary64)
  have s1: "fmul64 1 1 = Some 1"
    unfolding fmul64_def
    using binary64_eqI [of "0" "1 * 1" "4503599627370496"] by simp
  have s2: "fmul64 3 3 = Some 9"
    unfolding fmul64_def
    using binary64_eqI [of "3" "3 * 3" "5066549580791808"] by simp
  have s3: "fmul64 2 2 = Some 4"
    unfolding fmul64_def
    using binary64_eqI [of "2" "2 * 2" "4503599627370496"] by simp
  have s4: "fsub64 1 9 = Some (- 8)"
    unfolding fsub64_def
    using binary64_eqI [of "3" "1 - 9" "- 4503599627370496"] by simp
  have s5: "fsub64 (- 8) 4 = Some (- 12)"
    unfolding fsub64_def
    using binary64_eqI [of "3" "(- 8) - 4" "- 6755399441055744"] by simp
  show ?thesis
    by (simp only: difference64_def Let_def cq cr s1 s2 s3 s4 s5 Option.bind.bind_lunit)
qed

lemma F2_binary64_at_integers:
  "F2_binary64 1 2 3 = Some (- (375299968947541 / 2 ^ 52))"
proof -
  have cq: "max 2 (round64 QMIN) = 2"
    by (simp add: QMIN_binary64)
  have cr: "max 3 (round64 QMIN) = 3"
    by (simp add: QMIN_binary64)
  have s1: "fmul64 1 1 = Some 1"
    unfolding fmul64_def
    using binary64_eqI [of "0" "1 * 1" "4503599627370496"] by simp
  have s2: "fmul64 2 2 = Some 4"
    unfolding fmul64_def
    using binary64_eqI [of "2" "2 * 2" "4503599627370496"] by simp
  have s3: "fmul64 3 3 = Some 9"
    unfolding fmul64_def
    using binary64_eqI [of "3" "3 * 3" "5066549580791808"] by simp
  have s4: "fsub64 1 4 = Some (- 3)"
    unfolding fsub64_def
    using binary64_eqI [of "1" "1 - 4" "- 6755399441055744"] by simp
  have s5: "fsub64 (- 3) 9 = Some (- 12)"
    unfolding fsub64_def
    using binary64_eqI [of "3" "(- 3) - 9" "- 6755399441055744"] by simp
  have s6: "fdiv64 5 7 = Some (6433713753386423 / 2 ^ 53)"
    unfolding fdiv64_def fdiv_def
    using binary64_eqI [of "- 1" "5 / 7" "6433713753386423"] by simp
  have s7: "fdiv64 1 14 = Some (2573485501354569 / 2 ^ 55)"
    unfolding fdiv64_def fdiv_def
    using binary64_eqI [of "- 4" "1 / 14" "5146971002709138"] by simp
  have s8: "fmul64 (- 12) (- 12) = Some 144"
    unfolding fmul64_def
    using binary64_eqI [of "7" "(- 12) * (- 12)" "5066549580791808"] by simp
  have s9: "fmul64 (2573485501354569 / 2 ^ 55) 144 = Some (1447585594511945 / 2 ^ 47)"
    unfolding fmul64_def
    using binary64_eqI [of "3" "(2573485501354569 / 2 ^ 55) * 144" "5790342378047780"] by simp
  have s10: "fmul64 4 9 = Some 36"
    unfolding fmul64_def
    using binary64_eqI [of "5" "4 * 9" "5066549580791808"] by simp
  have s11: "fdiv64 (1447585594511945 / 2 ^ 47) 36 = Some (2573485501354569 / 2 ^ 53)"
    unfolding fdiv64_def fdiv_def
    using binary64_eqI [of "- 2" "(1447585594511945 / 2 ^ 47) / 36" "5146971002709138"] by simp
  have s12: "fadd64 (6433713753386423 / 2 ^ 53) (2573485501354569 / 2 ^ 53) = Some 1"
    unfolding fadd64_def
    using binary64_eqI [of "0" "(6433713753386423 / 2 ^ 53) + (2573485501354569 / 2 ^ 53)" "4503599627370496"] by simp
  have s13: "fdiv64 1 4 = Some (1 / 2 ^ 2)"
    unfolding fdiv64_def fdiv_def
    using binary64_eqI [of "- 2" "1 / 4" "4503599627370496"] by simp
  have s14: "fmul64 (1 / 2 ^ 2) (- 12) = Some (- 3)"
    unfolding fmul64_def
    using binary64_eqI [of "1" "(1 / 2 ^ 2) * (- 12)" "- 6755399441055744"] by simp
  have s16: "fdiv64 1 9 = Some (2001599834386887 / 2 ^ 54)"
    unfolding fdiv64_def fdiv_def
    using binary64_eqI [of "- 4" "1 / 9" "8006399337547548"] by simp
  have s17: "fadd64 (1 / 2 ^ 2) (2001599834386887 / 2 ^ 54) = Some (6505199461757383 / 2 ^ 54)"
    unfolding fadd64_def
    using binary64_eqI [of "- 2" "(1 / 2 ^ 2) + (2001599834386887 / 2 ^ 54)" "6505199461757383"] by simp
  have s18: "fmul64 (- 3) (6505199461757383 / 2 ^ 54) = Some (- (4878899596318037 / 2 ^ 52))"
    unfolding fmul64_def
    using binary64_eqI [of "0" "(- 3) * (6505199461757383 / 2 ^ 54)" "- 4878899596318037"] by simp
  have s19: "fadd64 1 (- (4878899596318037 / 2 ^ 52)) = Some (- (375299968947541 / 2 ^ 52))"
    unfolding fadd64_def
    using binary64_eqI [of "- 4" "1 + (- (4878899596318037 / 2 ^ 52))" "- 6004799503160656"] by simp
  show ?thesis
    by (simp only: F2_binary64_def pow2_binary64_def Let_def cq cr s1 s2 s3 s4 s5 s6 s7 s8 s9 s10 s11 s12 s13 s14 s16 s17 s18 s19 Option.bind.bind_lunit)
qed

lemma G2_binary64_at_integers:
  "G2_binary64 1 2 3 = Some (- (375299968947541 / 2 ^ 52))"
proof -
  have cq: "max 2 (round64 QMIN) = 2"
    by (simp add: QMIN_binary64)
  have cr: "max 3 (round64 QMIN) = 3"
    by (simp add: QMIN_binary64)
  have s1: "fmul64 1 1 = Some 1"
    unfolding fmul64_def
    using binary64_eqI [of "0" "1 * 1" "4503599627370496"] by simp
  have s2: "fmul64 2 2 = Some 4"
    unfolding fmul64_def
    using binary64_eqI [of "2" "2 * 2" "4503599627370496"] by simp
  have s3: "fmul64 3 3 = Some 9"
    unfolding fmul64_def
    using binary64_eqI [of "3" "3 * 3" "5066549580791808"] by simp
  have s4: "fsub64 1 4 = Some (- 3)"
    unfolding fsub64_def
    using binary64_eqI [of "1" "1 - 4" "- 6755399441055744"] by simp
  have s5: "fsub64 (- 3) 9 = Some (- 12)"
    unfolding fsub64_def
    using binary64_eqI [of "3" "(- 3) - 9" "- 6755399441055744"] by simp
  have s6: "fdiv64 3 7 = Some (7720456504063707 / 2 ^ 54)"
    unfolding fdiv64_def fdiv_def
    using binary64_eqI [of "- 2" "3 / 7" "7720456504063707"] by simp
  have s7: "fdiv64 1 7 = Some (2573485501354569 / 2 ^ 54)"
    unfolding fdiv64_def fdiv_def
    using binary64_eqI [of "- 3" "1 / 7" "5146971002709138"] by simp
  have s8: "fmul64 (- 12) (- 12) = Some 144"
    unfolding fmul64_def
    using binary64_eqI [of "7" "(- 12) * (- 12)" "5066549580791808"] by simp
  have s9: "fmul64 (2573485501354569 / 2 ^ 54) 144 = Some (1447585594511945 / 2 ^ 46)"
    unfolding fmul64_def
    using binary64_eqI [of "4" "(2573485501354569 / 2 ^ 54) * 144" "5790342378047780"] by simp
  have s10: "fmul64 4 9 = Some 36"
    unfolding fmul64_def
    using binary64_eqI [of "5" "4 * 9" "5066549580791808"] by simp
  have s11: "fdiv64 (1447585594511945 / 2 ^ 46) 36 = Some (2573485501354569 / 2 ^ 52)"
    unfolding fdiv64_def fdiv_def
    using binary64_eqI [of "- 1" "(1447585594511945 / 2 ^ 46) / 36" "5146971002709138"] by simp
  have s12: "fadd64 (7720456504063707 / 2 ^ 54) (2573485501354569 / 2 ^ 52) = Some 1"
    unfolding fadd64_def
    using binary64_eqI [of "- 1" "(7720456504063707 / 2 ^ 54) + (2573485501354569 / 2 ^ 52)" "9007199254740992"] by simp
  have s13: "fdiv64 1 4 = Some (1 / 2 ^ 2)"
    unfolding fdiv64_def fdiv_def
    using binary64_eqI [of "- 2" "1 / 4" "4503599627370496"] by simp
  have s14: "fmul64 (1 / 2 ^ 2) (- 12) = Some (- 3)"
    unfolding fmul64_def
    using binary64_eqI [of "1" "(1 / 2 ^ 2) * (- 12)" "- 6755399441055744"] by simp
  have s16: "fdiv64 1 9 = Some (2001599834386887 / 2 ^ 54)"
    unfolding fdiv64_def fdiv_def
    using binary64_eqI [of "- 4" "1 / 9" "8006399337547548"] by simp
  have s17: "fadd64 (1 / 2 ^ 2) (2001599834386887 / 2 ^ 54) = Some (6505199461757383 / 2 ^ 54)"
    unfolding fadd64_def
    using binary64_eqI [of "- 2" "(1 / 2 ^ 2) + (2001599834386887 / 2 ^ 54)" "6505199461757383"] by simp
  have s18: "fmul64 (- 3) (6505199461757383 / 2 ^ 54) = Some (- (4878899596318037 / 2 ^ 52))"
    unfolding fmul64_def
    using binary64_eqI [of "0" "(- 3) * (6505199461757383 / 2 ^ 54)" "- 4878899596318037"] by simp
  have s19: "fadd64 1 (- (4878899596318037 / 2 ^ 52)) = Some (- (375299968947541 / 2 ^ 52))"
    unfolding fadd64_def
    using binary64_eqI [of "- 4" "1 + (- (4878899596318037 / 2 ^ 52))" "- 6004799503160656"] by simp
  show ?thesis
    by (simp only: G2_binary64_def pow2_binary64_def Let_def cq cr s1 s2 s3 s4 s5 s6 s7 s8 s9 s10 s11 s12 s13 s14 s16 s17 s18 s19 Option.bind.bind_lunit)
qed

text \<open>
  C9, as stated: F2(k,q,r) == F2(k,r,q) and G2(k,q,r) == G2(k,r,q) for every k and every
  valid q and r. In the doubles of the code this fails: F2(0.1, 0.2, 1.5) is
  -0x1.353a06d3a06d2p+3 and F2(0.1, 1.5, 0.2) is -0x1.353a06d3a06d3p+3, one unit in the
  last place apart, and G2(2, 0.3, 1.9) is 0x1.527f2c3400f24p+0 while G2(2, 1.9, 0.3) is
  0x1.527f2c3400f23p+0 (the arguments are the doubles of the decimal literals).
\<close>

theorem kernels_binary64_asymmetric:
  "F2_binary64 (3602879701896397 / 2 ^ 55) (3602879701896397 / 2 ^ 54) (3 / 2) = Some (- (2719986524947305 / 2 ^ 48))
   \<and> F2_binary64 (3602879701896397 / 2 ^ 55) (3 / 2) (3602879701896397 / 2 ^ 54) = Some (- (5439973049894611 / 2 ^ 49))
   \<and> F2_binary64 (3602879701896397 / 2 ^ 55) (3602879701896397 / 2 ^ 54) (3 / 2) \<noteq> F2_binary64 (3602879701896397 / 2 ^ 55) (3 / 2) (3602879701896397 / 2 ^ 54)
   \<and> G2_binary64 2 (5404319552844595 / 2 ^ 54) (4278419646001971 / 2 ^ 51) = Some (1488724530561993 / 2 ^ 50)
   \<and> G2_binary64 2 (4278419646001971 / 2 ^ 51) (5404319552844595 / 2 ^ 54) = Some (5954898122247971 / 2 ^ 52)
   \<and> G2_binary64 2 (5404319552844595 / 2 ^ 54) (4278419646001971 / 2 ^ 51) \<noteq> G2_binary64 2 (4278419646001971 / 2 ^ 51) (5404319552844595 / 2 ^ 54)"
  unfolding F2_binary64_at F2_binary64_at_swapped G2_binary64_at G2_binary64_at_swapped
  by simp

text \<open>
  C9, amended: in the code's double arithmetic, whenever the double k2 - q2 - r2 is the
  same in the two orders of subtraction, (k2 - q2) - r2 and (k2 - r2) - q2, swapping q and
  r does not change the kernels: if F2(k,q,r) evaluates to the double x (no operation
  overflowing or dividing by zero) then so does F2(k,r,q), and likewise G2. The
  difference is the only place where the order of q and r enters; when its two orders
  round differently the results can differ in the last place.
\<close>

theorem kernels_binary64_symmetric_if:
  assumes "difference64 k q r = difference64 k r q"
  shows "(F2_binary64 k q r = Some x \<longrightarrow> F2_binary64 k r q = Some x)
       \<and> (G2_binary64 k q r = Some y \<longrightarrow> G2_binary64 k r q = Some y)"
  using F2_binary64_symmetric_if [OF assms] G2_binary64_symmetric_if [OF assms]
  by simp

theorem kernels_binary64_symmetric_if_witness:
  "difference64 1 2 3 = difference64 1 3 2
   \<and> F2_binary64 1 2 3 = Some (- (375299968947541 / 2 ^ 52))
   \<and> F2_binary64 1 3 2 = Some (- (375299968947541 / 2 ^ 52))
   \<and> G2_binary64 1 2 3 = Some (- (375299968947541 / 2 ^ 52))
   \<and> G2_binary64 1 3 2 = Some (- (375299968947541 / 2 ^ 52))"
proof -
  have h: "difference64 1 2 3 = difference64 1 3 2"
    by (simp only: difference64_at difference64_at_swapped)
  note f = F2_binary64_at_integers and g = G2_binary64_at_integers
  from h f g kernels_binary64_symmetric_if [OF h, of "(- (375299968947541 / 2 ^ 52))" "(- (375299968947541 / 2 ^ 52))"]
  show ?thesis by blast
qed

section \<open>The P13 kernels against the specification's bracket\<close>

text \<open>
  In the general branch the ratio r is at least 1/100 and at least 1/10^10 away from 1:
  the quotient (1+r)/|1-r| has a non-zero divisor and is positive, so that its logarithm
  is a number.
\<close>

lemma general_branch_log:
  assumes "\<not> r < 1 / 100" "\<not> \<bar>r - 1\<bar> < 1 / 10 ^ 10"
  shows "fdiv (1 + r) \<bar>1 - r\<bar> = Some ((1 + r) / \<bar>1 - r\<bar>)"
    and "flog ((1 + r) / \<bar>1 - r\<bar>) = Some (ln ((1 + r) / \<bar>1 - r\<bar>))"
proof -
  from assms have nz: "\<bar>1 - r\<bar> \<noteq> 0" by auto
  from assms have "0 < 1 + r" by simp
  moreover from nz have "0 < \<bar>1 - r\<bar>" by simp
  ultimately have pos: "0 < (1 + r) / \<bar>1 - r\<bar>" by (rule divide_pos_pos)
  show "fdiv (1 + r) \<bar>1 - r\<bar> = Some ((1 + r) / \<bar>1 - r\<bar>)"
    using nz by (rule fdiv_nonzero)
  show "flog ((1 + r) / \<bar>1 - r\<bar>) = Some (ln ((1 + r) / \<bar>1 - r\<bar>))"
    using pos unfolding flog_def by (simp only: not_le [symmetric] if_False)
qed

lemma f13_dd_bracket:
  assumes "k \<noteq> 0"
  shows "f13_dd PL k logq = Some (exp logq * PL (exp logq) * s_dd (exp logq / k))"
proof -
  define r where "r = exp logq / k"
  have fr: "fdiv (exp logq) k = Some r"
    using assms by (simp add: fdiv_def r_def)
  consider (small) "r < 1 / 100"
    | (near) "\<not> r < 1 / 100" "\<bar>r - 1\<bar> < 1 / 10 ^ 10"
    | (large) "\<not> r < 1 / 100" "\<not> \<bar>r - 1\<bar> < 1 / 10 ^ 10" "100 < r"
    | (general) "\<not> r < 1 / 100" "\<not> \<bar>r - 1\<bar> < 1 / 10 ^ 10" "\<not> 100 < r"
    by blast
  then have "f13_dd PL k logq = Some (exp logq * PL (exp logq) * s_dd r)"
  proof cases
    case small
    then show ?thesis
      unfolding f13_dd_def Let_def fr
      by (simp add: s_dd_def s_piecewise_def small_r_series_def pow2_def pow4_def pow6_def)
  next
    case near
    then show ?thesis
      unfolding f13_dd_def Let_def fr
      by (simp add: s_dd_def s_piecewise_def near_one_expansion_def)
  next
    case large
    then have "r \<noteq> 0" by simp
    with large show ?thesis
      unfolding f13_dd_def Let_def fr
      by (simp add: s_dd_def s_piecewise_def large_r_series_def fdiv_def
            pow2_def pow4_def pow6_def)
  next
    case general
    then have "r \<noteq> 0" by auto
    with general show ?thesis
      unfolding f13_dd_def Let_def fr
      by (simp add: s_dd_def s_piecewise_def exact_closed_form_def
            general_branch_log [OF general(1,2)] fdiv_nonzero
            pow2_def pow3_def pow4_def power2_eq_square)
  qed
  then show ?thesis by (simp only: r_def)
qed

lemma f13_dt_bracket:
  assumes "k \<noteq> 0"
  shows "f13_dt PL k logq = Some (exp logq * PL (exp logq) * s_dt (exp logq / k))"
proof -
  define r where "r = exp logq / k"
  have fr: "fdiv (exp logq) k = Some r"
    using assms by (simp add: fdiv_def r_def)
  consider (small) "r < 1 / 100"
    | (near) "\<not> r < 1 / 100" "\<bar>r - 1\<bar> < 1 / 10 ^ 10"
    | (large) "\<not> r < 1 / 100" "\<not> \<bar>r - 1\<bar> < 1 / 10 ^ 10" "100 < r"
    | (general) "\<not> r < 1 / 100" "\<not> \<bar>r - 1\<bar> < 1 / 10 ^ 10" "\<not> 100 < r"
    by blast
  then have "f13_dt PL k logq = Some (exp logq * PL (exp logq) * s_dt r)"
  proof cases
    case small
    then show ?thesis
      unfolding f13_dt_def Let_def fr
      by (simp add: s_dt_def s_piecewise_def small_r_series_def pow2_def pow4_def pow6_def)
  next
    case near
    then show ?thesis
      unfolding f13_dt_def Let_def fr
      by (simp add: s_dt_def s_piecewise_def near_one_expansion_def)
  next
    case large
    then have "r \<noteq> 0" by simp
    with large show ?thesis
      unfolding f13_dt_def Let_def fr
      by (simp add: s_dt_def s_piecewise_def large_r_series_def fdiv_def
            pow2_def pow4_def pow6_def)
  next
    case general
    then have "r \<noteq> 0" by auto
    with general show ?thesis
      unfolding f13_dt_def Let_def fr
      by (simp add: s_dt_def s_piecewise_def exact_closed_form_def
            general_branch_log [OF general(1,2)] fdiv_nonzero
            pow2_def pow3_def pow4_def power2_eq_square)
  qed
  then show ?thesis by (simp only: r_def)
qed

lemma f13_tt_bracket:
  assumes "k \<noteq> 0"
  shows "f13_tt PL k logq = Some (exp logq * PL (exp logq) * s_tt (exp logq / k))"
proof -
  define r where "r = exp logq / k"
  have fr: "fdiv (exp logq) k = Some r"
    using assms by (simp add: fdiv_def r_def)
  consider (small) "r < 1 / 100"
    | (near) "\<not> r < 1 / 100" "\<bar>r - 1\<bar> < 1 / 10 ^ 10"
    | (large) "\<not> r < 1 / 100" "\<not> \<bar>r - 1\<bar> < 1 / 10 ^ 10" "100 < r"
    | (general) "\<not> r < 1 / 100" "\<not> \<bar>r - 1\<bar> < 1 / 10 ^ 10" "\<not> 100 < r"
    by blast
  then have "f13_tt PL k logq = Some (exp logq * PL (exp logq) * s_tt r)"
  proof cases
    case small
    then show ?thesis
      unfolding f13_tt_def Let_def fr
      by (simp add: s_tt_def s_piecewise_def small_r_series_def pow2_def pow4_def pow6_def)
  next
    case near
    then show ?thesis
      unfolding f13_tt_def Let_def fr
      by (simp add: s_tt_def s_piecewise_def near_one_expansion_def)
  next
    case large
    then have "r \<noteq> 0" by simp
    with large show ?thesis
      unfolding f13_tt_def Let_def fr
      by (simp add: s_tt_def s_piecewise_def large_r_series_def fdiv_def
            pow2_def pow4_def pow6_def)
  next
    case general
    then have "r \<noteq> 0" by auto
    with general show ?thesis
      unfolding f13_tt_def Let_def fr
      by (simp add: s_tt_def s_piecewise_def exact_closed_form_def
            general_branch_log [OF general(1,2)] fdiv_nonzero
            pow2_def pow3_def pow4_def power2_eq_square)
  qed
  then show ?thesis by (simp only: r_def)
qed

text \<open>
  C2: each P13 kernel integrand (dd, dt, tt) returns q P_L(q) s(r) with q = exp(logq) and
  r = q/k, where the bracket s is chosen by thresholds on r alone: below 1/100 a 4-term
  polynomial in r^2, within 1/10^10 of 1 a linear expansion in (r - 1), above 100 an
  expansion in inverse powers of r down to r^-6, and otherwise the exact closed form,
  each with the constants of the variant (for dd: A = 12, B = 158, C = 100, D = 42,
  E = 7, F = 2, as \<open>s_dd\<close> has them). The ratio r is a number when k is not zero; in
  each branch every further division and the logarithm are defined.
\<close>

theorem f13_kernels_piecewise:
  assumes "k \<noteq> 0"
  shows "f13_dd PL k logq = Some (exp logq * PL (exp logq) * s_dd (exp logq / k))
       \<and> f13_dt PL k logq = Some (exp logq * PL (exp logq) * s_dt (exp logq / k))
       \<and> f13_tt PL k logq = Some (exp logq * PL (exp logq) * s_tt (exp logq / k))"
  using assms by (simp only: f13_dd_bracket f13_dt_bracket f13_tt_bracket simp_thms)

theorem f13_kernels_piecewise_witness:
  "(1 / 2 :: real) \<noteq> 0
   \<and> f13_dd cutoff_spectrum (1 / 2) 0 = Some (exp 0 * cutoff_spectrum (exp 0) * s_dd (exp 0 / (1 / 2)))
   \<and> f13_dt cutoff_spectrum (1 / 2) 0 = Some (exp 0 * cutoff_spectrum (exp 0) * s_dt (exp 0 / (1 / 2)))
   \<and> f13_tt cutoff_spectrum (1 / 2) 0 = Some (exp 0 * cutoff_spectrum (exp 0) * s_tt (exp 0 / (1 / 2)))"
  using f13_kernels_piecewise [of "1 / 2" cutoff_spectrum 0] by simp

text \<open>
  The dd bracket in each of its four branches, and the dd kernel at r = 2.
\<close>

lemma s_dd_values:
  "s_dd (1 / 200) = small_r_series (- 168) (928 / 5) (- (4512 / 35)) (416 / 21) (1 / 200)"
  "s_dd 1 = - 88"
  "s_dd 200 = large_r_series (- (488 / 5)) (96 / 5) (- (160 / 21)) (- (1376 / 1155)) 200"
  "s_dd 2 = 12 / 4 - 158 + 100 * 4 - 42 * 16 + (3 / 8) * 27 * 30 * ln 3"
  by (simp_all add: s_dd_def s_piecewise_def near_one_expansion_def exact_closed_form_def)

lemma f13_dd_at_two: "f13_dd cutoff_spectrum (1 / 2) 0 = Some (- 427 + (1215 / 4) * ln 3)"
  by (simp add: f13_dd_bracket s_dd_values cutoff_spectrum_def)

section \<open>Dispatch on the field indices\<close>

lemma valid_index_product:
  fixes a b :: int32
  assumes "a \<in> {1, 2}" "b \<in> {1, 2}"
  shows "a * b = 1 \<or> a * b = 2 \<or> a * b = 4"
  using assms by auto

lemma P_dispatch:
  "P E S k a b =
     (if a * b = 1 then tree_plus_terms (P_L S k) (P13_dd E S k) (P22_dd E S k)
      else if a * b = 2 then tree_plus_terms (P_L S k) (P13_dt E S k) (P22_dt E S k)
      else if a * b = 4 then tree_plus_terms (P_L S k) (P13_tt E S k) (P22_tt E S k)
      else (Some 0, [Warning a b]))"
  by (simp add: P_def Let_def)

lemma P22_dispatch:
  "P22 E S k a b =
     (if a * b = 1 then P22_dd E S k
      else if a * b = 2 then P22_dt E S k
      else if a * b = 4 then P22_tt E S k
      else (Some 0, [Warning a b]))"
  by (simp add: P22_def Let_def)

lemma P13_dispatch:
  "P13 E S k a b =
     (if a * b = 1 then P13_dd E S k
      else if a * b = 2 then P13_dt E S k
      else if a * b = 4 then P13_tt E S k
      else (Some 0, [Warning a b]))"
  by (simp add: P13_def Let_def)

lemma P13_trace:
  "snd (P13_dd E S k) = [Quadrature 1]"
  "snd (P13_dt E S k) = [Quadrature 1]"
  "snd (P13_tt E S k) = [Quadrature 1]"
  by (simp_all add: P13_dd_def P13_dt_def P13_tt_def Let_def)

lemma P22_trace:
  "snd (P22_dd E S k) = (if k \<le> 0 then [] else [Quadrature 2])"
  "snd (P22_dt E S k) = (if k \<le> 0 then [] else [Quadrature 2])"
  "snd (P22_tt E S k) = (if k \<le> 0 then [] else [Quadrature 2])"
  by (simp_all add: P22_dd_def P22_dt_def P22_tt_def ComputeP22Integral_def Let_def)

lemma sample_fields:
  "P_L sample_SPT = cutoff_spectrum" "epsrel sample_SPT = 1 / 1000"
  by (simp_all add: sample_SPT_def)

lemma rectangle_Integrate:
  "Integrate rectangle_engine f a b er ea = map_option (\<lambda>y. (b - a) * y) (f a)"
  by (simp add: rectangle_engine_def)

lemma rectangle_Integrate2:
  "Integrate2 rectangle_engine f a b er ea =
     map_option (\<lambda>y. (fst b - fst a) * (snd b - snd a) * y) (f (fst a) (snd a))"
  by (simp add: rectangle_engine_def)

lemma P22_tt_integrand_corner: "P22_tt_integrand cutoff_spectrum 1 0 0 = Some 1"
  using kernels_at_half
  by (simp add: P22_tt_integrand_def Let_def cutoff_spectrum_def pow2_def)

text \<open>
  C1: for every k > 0 and every pair (a, b) with a and b in {1, 2}, P(k,a,b) is
  P_L(k) + P13(k,a,b) + P22(k,a,b), where P13 and P22 are the public accessors called
  with the same pair: the value is that sum (a number when both loop terms are), and
  the calls made are those of the two accessors.
\<close>

theorem P_tree_plus_loop_terms:
  fixes a b :: int32
  assumes "0 < k" "a \<in> {1, 2}" "b \<in> {1, 2}"
  shows "P E S k a b =
    (do { x \<leftarrow> fst (P13 E S k a b); y \<leftarrow> fst (P22 E S k a b); Some (P_L S k + x + y) },
     snd (P13 E S k a b) @ snd (P22 E S k a b))"
  using valid_index_product [OF assms(2,3)]
  by (auto simp add: P_dispatch P13_dispatch P22_dispatch tree_plus_terms_def)

theorem P_tree_plus_loop_terms_witness:
  "(0 :: real) < 1 \<and> (1 :: int32) \<in> {1, 2} \<and> (2 :: int32) \<in> {1, 2}
   \<and> P rectangle_engine sample_SPT 1 1 2 =
    (do { x \<leftarrow> fst (P13 rectangle_engine sample_SPT 1 1 2);
          y \<leftarrow> fst (P22 rectangle_engine sample_SPT 1 1 2);
          Some (P_L sample_SPT 1 + x + y) },
     snd (P13 rectangle_engine sample_SPT 1 1 2) @ snd (P22 rectangle_engine sample_SPT 1 1 2))"
  using P_tree_plus_loop_terms [of 1 1 2 rectangle_engine sample_SPT] by simp

text \<open>
  C8: the dispatch is symmetric in the two indices of the mixed pair: for every k,
  P(k,1,2) = P(k,2,1), P22(k,1,2) = P22(k,2,1) and P13(k,1,2) = P13(k,2,1), values and
  traces alike, since the key is the product a*b.
\<close>

theorem dispatch_symmetric:
  "P E S k 1 2 = P E S k 2 1
   \<and> P22 E S k 1 2 = P22 E S k 2 1
   \<and> P13 E S k 1 2 = P13 E S k 2 1"
  by (simp add: P_dispatch P22_dispatch P13_dispatch)

text \<open>
  C10: P, P22 and P13 look at the indices only through the product a*b: two pairs with
  the same product give the same value. In particular the pair (4, 1), whose first
  component is no field index, has the product 4 and is answered like (2, 2): P(k,4,1)
  = P(k,2,2), the velocity-velocity result, for every k, and likewise for P22 and P13;
  the traces hold quadrature calls only, no warning.
\<close>

theorem dispatch_on_product_only:
  fixes a b c d :: int32
  shows "(a * b = c * d \<longrightarrow>
            fst (P E S k a b) = fst (P E S k c d)
          \<and> fst (P22 E S k a b) = fst (P22 E S k c d)
          \<and> fst (P13 E S k a b) = fst (P13 E S k c d))
       \<and> P E S k 4 1 = P E S k 2 2
       \<and> P22 E S k 4 1 = P22 E S k 2 2
       \<and> P13 E S k 4 1 = P13 E S k 2 2
       \<and> P E S k 4 1 = tree_plus_terms (P_L S k) (P13_tt E S k) (P22_tt E S k)
       \<and> snd (P E S k 4 1) = Quadrature 1 # (if k \<le> 0 then [] else [Quadrature 2])
       \<and> snd (P22 E S k 4 1) = (if k \<le> 0 then [] else [Quadrature 2])
       \<and> snd (P13 E S k 4 1) = [Quadrature 1]"
  by (simp add: P_dispatch P22_dispatch P13_dispatch tree_plus_terms_def P13_trace P22_trace)

theorem dispatch_on_product_only_witness:
  "(- 1 :: int32) * (- 2) = 1 * 2
   \<and> fst (P rectangle_engine sample_SPT 1 (- 1) (- 2)) = fst (P rectangle_engine sample_SPT 1 1 2)
   \<and> fst (P22 rectangle_engine sample_SPT 1 (- 1) (- 2)) = fst (P22 rectangle_engine sample_SPT 1 1 2)
   \<and> fst (P13 rectangle_engine sample_SPT 1 (- 1) (- 2)) = fst (P13 rectangle_engine sample_SPT 1 1 2)
   \<and> P rectangle_engine sample_SPT 1 4 1 = P rectangle_engine sample_SPT 1 2 2"
proof -
  have h: "(- 1 :: int32) * (- 2) = 1 * 2" by simp
  with dispatch_on_product_only [of "- 1" "- 2" 1 2 rectangle_engine sample_SPT 1]
  show ?thesis by blast
qed

text \<open>
  C4: the claim is that every pair with a component outside {1, 2} is answered by a
  warning and the value 0. The code run at k = 1, a = 4, b = 1 (rectangle engine, cutoff
  spectrum): P22 returns the velocity-velocity integral ln(200000)/(2 pi^2), which is
  not 0, and none of P, P22 and P13 calls \<open>warning\<close>.
\<close>

theorem invalid_pair_reaches_tt:
  "P22 rectangle_engine sample_SPT 1 4 1 = (Some (ln 200000 / (2 * pi * pi)), [Quadrature 2])
   \<and> snd (P13 rectangle_engine sample_SPT 1 4 1) = [Quadrature 1]
   \<and> snd (P rectangle_engine sample_SPT 1 4 1) = [Quadrature 1, Quadrature 2]"
  by (simp add: P_dispatch P22_dispatch P13_dispatch tree_plus_terms_def P13_trace P22_trace
        P22_tt_def ComputeP22Integral_def Let_def sample_fields rectangle_Integrate2
        P22_tt_integrand_corner QMAX_def)

section \<open>Arguments outside the expected domain\<close>

lemma ComputeP22Integral_guard:
  "k \<le> 0 \<Longrightarrow> ComputeP22Integral E f PL k eps qmax = (Some 0, [])"
  by (simp add: ComputeP22Integral_def)

text \<open>
  C7: for every k <= 0 and every pair (a, b) with a and b in {1, 2}, P22(k,a,b) is 0 and
  nothing is called: the driver returns at its guard, before the integrand or the
  quadrature engine is evaluated (the trace is empty), whatever the integrand, the
  spectrum, the tolerance and the cutoff.
\<close>

theorem P22_nonpositive_k:
  fixes a b :: int32
  assumes "k \<le> 0" "a \<in> {1, 2}" "b \<in> {1, 2}"
  shows "P22 E S k a b = (Some 0, [])
       \<and> ComputeP22Integral E f PL k eps qmax = (Some 0, [])"
  using valid_index_product [OF assms(2,3)] assms(1)
  by (auto simp add: P22_dispatch P22_dd_def P22_dt_def P22_tt_def ComputeP22Integral_guard)

theorem P22_nonpositive_k_witness:
  "(- 1 :: real) \<le> 0 \<and> (2 :: int32) \<in> {1, 2} \<and> (1 :: int32) \<in> {1, 2}
   \<and> P22 rectangle_engine sample_SPT (- 1) 2 1 = (Some 0, [])
   \<and> ComputeP22Integral rectangle_engine P22_dt_integrand cutoff_spectrum (- 1) (1 / 1000) QMAX
       = (Some 0, [])"
  using P22_nonpositive_k [of "- 1" 2 1 rectangle_engine sample_SPT P22_dt_integrand
                             cutoff_spectrum "1 / 1000" QMAX]
  by simp

lemma f13_negative_k:
  assumes "k < 0"
  shows "s_dd (exp logq / k) = small_r_series (- 168) (928 / 5) (- (4512 / 35)) (416 / 21) (exp logq / k)"
    and "s_dt (exp logq / k) = small_r_series (- 168) (416 / 5) (- (2976 / 35)) (224 / 15) (exp logq / k)"
    and "s_tt (exp logq / k) = small_r_series (- 56) (- (32 / 5)) (- (96 / 7)) (352 / 105) (exp logq / k)"
proof -
  have "exp logq / k < 0" using assms by (simp add: divide_pos_neg)
  also have "(0 :: real) < 1 / 100" by simp
  finally have "exp logq / k < 1 / 100" .
  then show "s_dd (exp logq / k) = small_r_series (- 168) (928 / 5) (- (4512 / 35)) (416 / 21) (exp logq / k)"
    and "s_dt (exp logq / k) = small_r_series (- 168) (416 / 5) (- (2976 / 35)) (224 / 15) (exp logq / k)"
    and "s_tt (exp logq / k) = small_r_series (- 56) (- (32 / 5)) (- (96 / 7)) (352 / 105) (exp logq / k)"
    by (simp_all only: s_dd_def s_dt_def s_tt_def s_piecewise_def if_True)
qed

lemma f13_zero_k:
  "f13_dd PL 0 logq = None" "f13_dt PL 0 logq = None" "f13_tt PL 0 logq = None"
  by (simp_all add: f13_dd_def f13_dt_def f13_tt_def Let_def fdiv_zero)

text \<open>
  C5, as stated: for every k <= 0 each P13 driver validates k and fails fast with a typed
  error instead of carrying on with the division r = q/k. The code run at k = -1
  (rectangle engine, cutoff spectrum) does not stop at a check of k: it calls the
  quadrature engine, whose sample point is q = QMIN with r = -QMIN, and returns the
  number V times the estimate, with V = 1/(252 4 pi^2).
\<close>

theorem P13_no_fail_fast_counterexample:
  "P13_dd rectangle_engine sample_SPT (- 1) =
     (Some (1 / (252 * 4 * pi * pi) * ((ln QMAX - ln QMIN)
        * (QMIN * small_r_series (- 168) (928 / 5) (- (4512 / 35)) (416 / 21) (- QMIN)))),
      [Quadrature 1])"
proof -
  have q: "exp (ln QMIN) = QMIN" using QMIN_pos by simp
  have "(- 1 :: real) \<noteq> 0" by simp
  note f = f13_dd_bracket [OF this, of cutoff_spectrum "ln QMIN", unfolded q]
  have c: "cutoff_spectrum QMIN = 1" "cutoff_spectrum (- 1) = 1"
    by (simp_all add: cutoff_spectrum_def QMIN_def)
  have s: "s_dd (- QMIN) = small_r_series (- 168) (928 / 5) (- (4512 / 35)) (416 / 21) (- QMIN)"
    by (simp add: s_dd_def s_piecewise_def QMIN_def)
  show ?thesis
    by (simp add: P13_dd_def Let_def sample_fields rectangle_Integrate f c s)
qed

text \<open>
  C5, amended: for every k <= 0 the P13 drivers do not validate k and have no error
  result. Each calls the one-dimensional quadrature engine once, over
  [log QMIN, log QMAX] with the tolerances epsrel and epsrel P_L(k) / V, and returns
  V times its estimate, where V = k^2/(252 4 pi^2) P_L(k) for dd and dt and
  V = k^2/(84 4 pi^2) P_L(k) for tt. For k < 0 the ratio r = q/k is negative and the
  integrand is q P_L(q) times the small-r polynomial; for k = 0 the division r = q/k of
  the integrand has a zero divisor.
\<close>

theorem P13_drivers_unguarded:
  assumes "k \<le> 0"
  shows
   "P13_dd E S k =
      (map_option (\<lambda>I. k * k / (252 * 4 * pi * pi) * P_L S k * I)
         (Integrate E (f13_dd (P_L S) k) (ln QMIN) (ln QMAX) (epsrel S)
            (fdiv (epsrel S * P_L S k) (k * k / (252 * 4 * pi * pi) * P_L S k))),
       [Quadrature 1])
    \<and> P13_dt E S k =
      (map_option (\<lambda>I. k * k / (252 * 4 * pi * pi) * P_L S k * I)
         (Integrate E (f13_dt (P_L S) k) (ln QMIN) (ln QMAX) (epsrel S)
            (fdiv (epsrel S * P_L S k) (k * k / (252 * 4 * pi * pi) * P_L S k))),
       [Quadrature 1])
    \<and> P13_tt E S k =
      (map_option (\<lambda>I. k * k / (84 * 4 * pi * pi) * P_L S k * I)
         (Integrate E (f13_tt (P_L S) k) (ln QMIN) (ln QMAX) (epsrel S)
            (fdiv (epsrel S * P_L S k) (k * k / (84 * 4 * pi * pi) * P_L S k))),
       [Quadrature 1])
    \<and> (k < 0 \<longrightarrow>
          f13_dd (P_L S) k logq = Some (exp logq * P_L S (exp logq)
            * small_r_series (- 168) (928 / 5) (- (4512 / 35)) (416 / 21) (exp logq / k))
        \<and> f13_dt (P_L S) k logq = Some (exp logq * P_L S (exp logq)
            * small_r_series (- 168) (416 / 5) (- (2976 / 35)) (224 / 15) (exp logq / k))
        \<and> f13_tt (P_L S) k logq = Some (exp logq * P_L S (exp logq)
            * small_r_series (- 56) (- (32 / 5)) (- (96 / 7)) (352 / 105) (exp logq / k)))
    \<and> (k = 0 \<longrightarrow>
          f13_dd (P_L S) k logq = None
        \<and> f13_dt (P_L S) k logq = None
        \<and> f13_tt (P_L S) k logq = None)"
proof -
  have drivers:
    "P13_dd E S k =
      (map_option (\<lambda>I. k * k / (252 * 4 * pi * pi) * P_L S k * I)
         (Integrate E (f13_dd (P_L S) k) (ln QMIN) (ln QMAX) (epsrel S)
            (fdiv (epsrel S * P_L S k) (k * k / (252 * 4 * pi * pi) * P_L S k))),
       [Quadrature 1])"
    "P13_dt E S k =
      (map_option (\<lambda>I. k * k / (252 * 4 * pi * pi) * P_L S k * I)
         (Integrate E (f13_dt (P_L S) k) (ln QMIN) (ln QMAX) (epsrel S)
            (fdiv (epsrel S * P_L S k) (k * k / (252 * 4 * pi * pi) * P_L S k))),
       [Quadrature 1])"
    "P13_tt E S k =
      (map_option (\<lambda>I. k * k / (84 * 4 * pi * pi) * P_L S k * I)
         (Integrate E (f13_tt (P_L S) k) (ln QMIN) (ln QMAX) (epsrel S)
            (fdiv (epsrel S * P_L S k) (k * k / (84 * 4 * pi * pi) * P_L S k))),
       [Quadrature 1])"
    unfolding P13_dd_def P13_dt_def P13_tt_def Let_def by (rule refl)+
  have negative: "k < 0 \<longrightarrow>
          f13_dd (P_L S) k logq = Some (exp logq * P_L S (exp logq)
            * small_r_series (- 168) (928 / 5) (- (4512 / 35)) (416 / 21) (exp logq / k))
        \<and> f13_dt (P_L S) k logq = Some (exp logq * P_L S (exp logq)
            * small_r_series (- 168) (416 / 5) (- (2976 / 35)) (224 / 15) (exp logq / k))
        \<and> f13_tt (P_L S) k logq = Some (exp logq * P_L S (exp logq)
            * small_r_series (- 56) (- (32 / 5)) (- (96 / 7)) (352 / 105) (exp logq / k))"
  proof
    assume neg: "k < 0"
    then have "k \<noteq> 0" by simp
    then show "f13_dd (P_L S) k logq = Some (exp logq * P_L S (exp logq)
            * small_r_series (- 168) (928 / 5) (- (4512 / 35)) (416 / 21) (exp logq / k))
        \<and> f13_dt (P_L S) k logq = Some (exp logq * P_L S (exp logq)
            * small_r_series (- 168) (416 / 5) (- (2976 / 35)) (224 / 15) (exp logq / k))
        \<and> f13_tt (P_L S) k logq = Some (exp logq * P_L S (exp logq)
            * small_r_series (- 56) (- (32 / 5)) (- (96 / 7)) (352 / 105) (exp logq / k))"
      by (simp only: f13_dd_bracket f13_dt_bracket f13_tt_bracket f13_negative_k [OF neg]
            simp_thms)
  qed
  have zero: "k = 0 \<longrightarrow>
          f13_dd (P_L S) k logq = None
        \<and> f13_dt (P_L S) k logq = None
        \<and> f13_tt (P_L S) k logq = None"
    by (simp add: f13_zero_k)
  from drivers negative zero show ?thesis by blast
qed

theorem P13_drivers_unguarded_witness:
  "(- 1 :: real) \<le> 0 \<and> (- 1 :: real) < 0
   \<and> snd (P13_dd rectangle_engine sample_SPT (- 1)) = [Quadrature 1]
   \<and> f13_dd (P_L sample_SPT) (- 1) 0 = Some (exp 0 * P_L sample_SPT (exp 0)
            * small_r_series (- 168) (928 / 5) (- (4512 / 35)) (416 / 21) (exp 0 / (- 1)))
   \<and> (0 :: real) \<le> 0
   \<and> snd (P13_tt rectangle_engine sample_SPT 0) = [Quadrature 1]
   \<and> f13_tt (P_L sample_SPT) 0 0 = None"
proof -
  have h1: "(- 1 :: real) \<le> 0" and h2: "(- 1 :: real) < 0" and h3: "(0 :: real) \<le> 0"
    by simp_all
  note a = P13_drivers_unguarded [OF h1, of rectangle_engine sample_SPT 0]
  note b = P13_drivers_unguarded [OF h3, of rectangle_engine sample_SPT 0]
  from a have a1: "snd (P13_dd rectangle_engine sample_SPT (- 1)) = [Quadrature 1]"
    by simp
  from b have b1: "snd (P13_tt rectangle_engine sample_SPT 0) = [Quadrature 1]"
    by simp
  from a h2 have a2: "f13_dd (P_L sample_SPT) (- 1) 0 = Some (exp 0 * P_L sample_SPT (exp 0)
            * small_r_series (- 168) (928 / 5) (- (4512 / 35)) (416 / 21) (exp 0 / (- 1)))"
    by blast
  from b have b2: "f13_tt (P_L sample_SPT) 0 0 = None" by blast
  from h1 h2 h3 a1 a2 b1 b2 show ?thesis by blast
qed

text \<open>
  C6, as stated: G(k) is 1 + 0.5 P13_dd(k) / P_L(k) and the case P_L(k) = 0 is checked
  and reported as a typed error instead of dividing. The code run at k = 2 under the
  cutoff spectrum, where P_L(2) = 0: the quadrature engine is called and the quotient
  is formed with the divisor zero.
\<close>

theorem G_zero_spectrum_counterexample:
  "P_L sample_SPT 2 = 0 \<and> G rectangle_engine sample_SPT 2 = (None, [Quadrature 1])"
proof
  show z: "P_L sample_SPT 2 = 0" by (simp add: sample_fields cutoff_spectrum_def)
  have q: "exp (ln QMIN) = QMIN" using QMIN_pos by simp
  have "(2 :: real) \<noteq> 0" by simp
  note f = f13_dd_bracket [OF this, of cutoff_spectrum "ln QMIN", unfolded q]
  have "P13_dd rectangle_engine sample_SPT 2 = (Some 0, [Quadrature 1])"
    using z by (simp add: P13_dd_def Let_def sample_fields rectangle_Integrate f)
  then show "G rectangle_engine sample_SPT 2 = (None, [Quadrature 1])"
    using z by (simp add: G_def Let_def fdiv_def)
qed

text \<open>
  C6, amended: G(k) returns 1 + 0.5 P13_dd(k) / P_L(k) whenever P_L(k) is not zero (and
  P13_dd(k) is a number), after the calls P13_dd(k) makes. The division is not guarded
  and there is no error result: when P_L(k) = 0 the quotient is formed with a zero
  divisor.
\<close>

theorem G_unguarded_quotient:
  "(P_L S k \<noteq> 0 \<longrightarrow>
      fst (G E S k) = map_option (\<lambda>x. 1 + (1 / 2) * x / P_L S k) (fst (P13_dd E S k)))
   \<and> (P_L S k = 0 \<longrightarrow> fst (G E S k) = None)
   \<and> snd (G E S k) = snd (P13_dd E S k)"
  by (cases "fst (P13_dd E S k)") (simp_all add: G_def Let_def fdiv_def)

theorem G_unguarded_quotient_witness:
  "P_L sample_SPT 1 \<noteq> 0
   \<and> fst (G rectangle_engine sample_SPT 1)
       = map_option (\<lambda>x. 1 + (1 / 2) * x / P_L sample_SPT 1) (fst (P13_dd rectangle_engine sample_SPT 1))
   \<and> P_L sample_SPT 2 = 0
   \<and> fst (G rectangle_engine sample_SPT 2) = None"
proof -
  have h1: "P_L sample_SPT 1 \<noteq> 0" and h2: "P_L sample_SPT 2 = 0"
    by (simp_all add: sample_fields cutoff_spectrum_def)
  from h1 h2 G_unguarded_quotient [of sample_SPT 1 rectangle_engine]
    G_unguarded_quotient [of sample_SPT 2 rectangle_engine]
  show ?thesis by blast
qed

end
